theory Spec2Isabelle
  imports Main
begin

section \<open>The widgets of TemPy: tables and lists built from plain data\<close>

text \<open>
  The development embeds \<^verbatim>\<open>tempy/widgets.py\<close>: the table widget \<^verbatim>\<open>TempyTable\<close>
  (\<^verbatim>\<open>populate\<close>, \<^verbatim>\<open>clear\<close>, \<^verbatim>\<open>add_row\<close>, \<^verbatim>\<open>make_header\<close>, \<^verbatim>\<open>make_footer\<close>,
  \<^verbatim>\<open>make_caption\<close>, \<^verbatim>\<open>col_class\<close>, \<^verbatim>\<open>map_col\<close>, \<^verbatim>\<open>map_row\<close>, \<^verbatim>\<open>map_table\<close>) and the list factory
  \<^verbatim>\<open>TempyList\<close> with \<^verbatim>\<open>TempyListMeta.populate\<close>.

  Python mutates the tag tree in place. Here every operation takes the table and returns
  the table it leaves behind; an operation that raises returns \<open>Inl (e, self')\<close>, the
  exception together with the table as it is at the moment of the raise, so that what a
  failed call has already changed stays visible.
\<close>

subsection \<open>Exceptions\<close>

datatype error =
    WidgetDataError
  | WidgetError
  | AttributeError
  | ValueError
  | Raised string

text \<open>
  \<open>AttributeError\<close> is what Python raises for a method call on \<^verbatim>\<open>None\<close>,
  \<open>ValueError\<close> what \<^verbatim>\<open>max\<close> raises on an empty sequence, \<open>Raised msg\<close> stands for
  any exception of a caller's transform function.
\<close>

subsection \<open>The tag tree under a table\<close>

text \<open>
  Modelled from the spec: the tag classes of \<^verbatim>\<open>tempy.tags\<close> and their base class, which
  \<^verbatim>\<open>widgets.py\<close> imports. The spec's Node contract gives what the widgets use: a node
  has an ordered sequence of children and a mapping of attributes; \<^verbatim>\<open>empty()\<close> removes all
  children and keeps node and attributes; calling a node appends the argument as a child;
  \<^verbatim>\<open>append_to(parent)\<close> appends the node at the end of the parent's children and returns
  the node; \<^verbatim>\<open>remove()\<close> detaches the node from its parent; \<^verbatim>\<open>attr(k=v)\<close> sets an attribute.
  \<^verbatim>\<open>len(node)\<close> is the number of children (the widgets call \<^verbatim>\<open>len\<close> on rows and on the
  body), so a node without children is false in a condition, and iterating over a node
  iterates over its list of children.

  A cell is a \<^verbatim>\<open>Td\<close> or \<^verbatim>\<open>Th\<close> node whose children are content values; a row (\<^verbatim>\<open>Tr\<close>) is the
  list of its cells (the attributes of a row play no part below).
\<close>

text \<open>
  A Python \<^verbatim>\<open>dict\<close> keeps its keys in the order of their first insertion: it is an
  association list with distinct keys. \<open>dict_set\<close> is the assignment \<^verbatim>\<open>d[k] = v\<close>.
\<close>

fun dict_set :: "'k \<Rightarrow> 'v \<Rightarrow> ('k \<times> 'v) list \<Rightarrow> ('k \<times> 'v) list" where
  "dict_set k v [] = [(k, v)]"
| "dict_set k v (p # ps) = (if fst p = k then (k, v) # ps else p # dict_set k v ps)"

datatype tag = Td | Th

datatype 'a cell = Cell (tag: tag) (childs: "'a list") (attrs: "(string \<times> string) list")

type_synonym 'a row = "'a cell list"

datatype 'a part =
    Tbody "'a row list"
  | Thead "'a row list"
  | Tfoot "'a row list"
  | Caption "'a list"

text \<open>
  The table node: its children in order, and the named attributes \<^verbatim>\<open>self.body\<close>,
  \<^verbatim>\<open>self.header\<close>, \<^verbatim>\<open>self.footer\<close>, \<^verbatim>\<open>self.caption\<close>. A named attribute is a reference
  to one of the children: it is kept as the position of that child. \<^verbatim>\<open>body\<close> is set by the
  constructor for every table; the other three may be absent (\<^verbatim>\<open>hasattr\<close> is false).
\<close>

record 'a table =
  table_childs :: "'a part list"
  body :: nat
  header :: "nat option"
  footer :: "nat option"
  caption :: "nat option"

definition body_rows :: "'a table \<Rightarrow> 'a row list" where
  "body_rows self =
     (if body self < length (table_childs self)
      then (case table_childs self ! body self of Tbody rows \<Rightarrow> rows | _ \<Rightarrow> [])
      else [])"

definition set_body_rows :: "'a row list \<Rightarrow> 'a table \<Rightarrow> 'a table" where
  "set_body_rows rows self =
     self\<lparr>table_childs := (table_childs self)[body self := Tbody rows]\<rparr>"

text \<open>\<^verbatim>\<open>self(body=Tbody())\<close>: a new, empty body is appended and becomes \<^verbatim>\<open>self.body\<close>.\<close>

definition add_body :: "'a table \<Rightarrow> 'a table" where
  "add_body self =
     self\<lparr>table_childs := table_childs self @ [Tbody []],
          body := length (table_childs self)\<rparr>"

text \<open>\<^verbatim>\<open>TempyTable()\<close> with its default arguments: only the empty body.\<close>

definition TempyTable :: "'a table" where
  "TempyTable =
     \<lparr>table_childs = [Tbody []], body = 0, header = None, footer = None, caption = None\<rparr>"

text \<open>Node primitives on a cell.\<close>

definition empty :: "'a cell \<Rightarrow> 'a cell" where
  "empty c = Cell (tag c) [] (attrs c)"

definition call :: "'a \<Rightarrow> 'a cell \<Rightarrow> 'a cell" where
  "call v c = Cell (tag c) (childs c @ [v]) (attrs c)"

definition attr_klass :: "string \<Rightarrow> 'a cell \<Rightarrow> 'a cell" where
  "attr_klass css_class c = Cell (tag c) (childs c) (dict_set ''klass'' css_class (attrs c))"

text \<open>\<^verbatim>\<open>row.remove()\<close> for the row at position \<open>i\<close> of its parent.\<close>

definition remove_nth :: "nat \<Rightarrow> 'b list \<Rightarrow> 'b list" where
  "remove_nth i xs = take i xs @ drop (Suc i) xs"

subsection \<open>\<^verbatim>\<open>TempyTable.clear\<close> and \<^verbatim>\<open>TempyTable._check_row_size\<close>\<close>

definition clear :: "'a table \<Rightarrow> 'a table" where
  "clear self = set_body_rows [] self"

text \<open>Python's \<^verbatim>\<open>max\<close> over a sequence of numbers raises on the empty sequence.\<close>

fun py_max :: "nat list \<Rightarrow> error + nat" where
  "py_max [] = Inl ValueError"
| "py_max (x # xs) = Inr (fold max xs x)"

text \<open>
  \<^verbatim>\<open>_check_row_size(row)\<close>: \<open>row_length\<close> is \<^verbatim>\<open>len(row)\<close>, or \<^verbatim>\<open>row\<close> itself when it is a
  number (\<^verbatim>\<open>populate\<close> passes the width). The result is the exception raised, if any.
\<close>

definition check_row_size :: "'a table \<Rightarrow> nat \<Rightarrow> error option" where
  "check_row_size self row_length =
     (if body_rows self \<noteq> [] \<and>
         (case py_max (map length (body_rows self)) of
            Inr m \<Rightarrow> m < row_length | Inl _ \<Rightarrow> False)
      then Some WidgetDataError else None)"

subsection \<open>\<^verbatim>\<open>TempyTable.populate\<close>\<close>

text \<open>
  Both loops of \<^verbatim>\<open>populate\<close> run over \<^verbatim>\<open>zip_longest\<close> of a node and a list of data, and
  change the node while they run. The iterator over the node's children is live: it
  holds a position into the list of children, yields the child at that position if there
  is one, and is exhausted for good the first time there is none. It is modelled as
  \<open>Some j\<close> (at position \<open>j\<close>) or \<open>None\<close> (exhausted); \<open>next_ix\<close> gives the position it
  yields. \<^verbatim>\<open>zip_longest\<close> stops when both sides are exhausted and fills the exhausted side
  with \<^verbatim>\<open>None\<close>.
\<close>

definition next_ix :: "nat option \<Rightarrow> nat \<Rightarrow> nat option" where
  "next_ix it n = (case it of None \<Rightarrow> None | Some j \<Rightarrow> if j < n then Some j else None)"

text \<open>
  The inner loop, over the cells of \<open>t_row\<close> and the values of \<open>d_row\<close>:
  \<^verbatim>\<open>
  for t_cell, d_cell in zip_longest(t_row, d_row):
      if not t_cell and resize_x:
          t_cell = Td().append_to(t_row)
      t_cell.empty()
      if d_cell is not None:
          t_cell(d_cell)
  \<close>
  \<^verbatim>\<open>not t_cell\<close> holds for \<^verbatim>\<open>None\<close> and for a cell without content. The result is the row
  left behind and the exception raised, if any. The loop need not end (a cell without
  content met after the data has run out is answered by appending another one), so the
  function is partial: \<open>None\<close> is "does not return".
\<close>

partial_function (option) cells_loop ::
  "bool \<Rightarrow> 'a row \<Rightarrow> nat option \<Rightarrow> 'a option list \<Rightarrow> ('a row \<times> error option) option"
where
  "cells_loop resize_x t_row it d_row =
     (let t_cell = next_ix it (length t_row) in
      if t_cell = None \<and> d_row = [] then Some (t_row, None)
      else
        let d_cell = (case d_row of [] \<Rightarrow> None | v # _ \<Rightarrow> v);
            fresh = ((case t_cell of None \<Rightarrow> True | Some j \<Rightarrow> childs (t_row ! j) = [])
                     \<and> resize_x);
            t_row1 = (if fresh then t_row @ [Cell Td [] []] else t_row);
            t_cell1 = (if fresh then Some (length t_row) else t_cell)
        in case t_cell1 of
             None \<Rightarrow> Some (t_row1, Some AttributeError)
           | Some c \<Rightarrow>
               cells_loop resize_x
                 (t_row1[c := (case d_cell of
                                 None \<Rightarrow> empty (t_row1 ! c)
                               | Some v \<Rightarrow> call v (empty (t_row1 ! c)))])
                 (map_option Suc t_cell) (tl d_row))"

declare cells_loop.simps [code]

text \<open>
  Modelled from the spec: \<^verbatim>\<open>AdjustableList.ljust\<close> of \<^verbatim>\<open>tempy.tools\<close>. The spec has every
  row of the data padded on the right with empty values up to the width; \<open>ljust xs n v\<close>
  is \<^verbatim>\<open>AdjustableList(xs).ljust(n, v)\<close>.
\<close>

definition ljust :: "'b list \<Rightarrow> nat \<Rightarrow> 'b \<Rightarrow> 'b list" where
  "ljust xs n fillvalue = xs @ replicate (n - length xs) fillvalue"

text \<open>
  The outer loop, over the rows of the body and the rows of the data:
  \<^verbatim>\<open>
  for t_row, d_row in zip_longest(self.body, data):
      if not d_row:
          t_row.remove()
      else:
          if not t_row:
              t_row = Tr().append_to(self.body)
          if normalize:
              d_row = AdjustableList(d_row).ljust(max_data_x, None)
          for t_cell, d_cell in zip_longest(t_row, d_row): ...
  \<close>
  \<open>rows\<close> is the list of children of the body, \<open>t_row\<close> the position of the row at hand.
\<close>

partial_function (option) rows_loop ::
  "bool \<Rightarrow> bool \<Rightarrow> nat \<Rightarrow> 'a row list \<Rightarrow> nat option \<Rightarrow> 'a option list list
     \<Rightarrow> ('a row list \<times> error option) option"
where
  "rows_loop resize_x normalise max_data_x rows it data =
     (let t_row = next_ix it (length rows) in
      if t_row = None \<and> data = [] then Some (rows, None)
      else if (case data of [] \<Rightarrow> True | d_row # _ \<Rightarrow> d_row = []) then
        (case t_row of
           None \<Rightarrow> Some (rows, Some AttributeError)
         | Some i \<Rightarrow>
             rows_loop resize_x normalise max_data_x (remove_nth i rows)
               (map_option Suc t_row) (tl data))
      else
        let fresh = (case t_row of None \<Rightarrow> True | Some i \<Rightarrow> rows ! i = []);
            rows1 = (if fresh then rows @ [[]] else rows);
            r = (case t_row of None \<Rightarrow> length rows
                 | Some i \<Rightarrow> if fresh then length rows else i);
            d_row = (if normalise then ljust (hd data) max_data_x None else hd data)
        in case cells_loop resize_x (rows1 ! r) (Some 0) d_row of
             None \<Rightarrow> None
           | Some (cells, Some e) \<Rightarrow> Some (rows1[r := cells], Some e)
           | Some (cells, None) \<Rightarrow>
               rows_loop resize_x normalise max_data_x (rows1[r := cells])
                 (map_option Suc t_row) (tl data))"

declare rows_loop.simps [code]

text \<open>
  The test \<^verbatim>\<open>if not self.body\<close> is read with the truth value of a node taken from its
  \<^verbatim>\<open>len\<close>: a body without rows gets a new \<^verbatim>\<open>Tbody\<close> beside it. With nodes that are true
  whatever their children, the one \<^verbatim>\<open>Tbody\<close> would be kept instead; the two readings
  differ in the children of a table whose body was empty and in nothing else: the rows of
  the body after the call are the same (lemma \<open>body_rows_fresh_body\<close>).

  \<^verbatim>\<open>populate(data, resize_x, normalize)\<close> (the flag is spelt \<open>normalise\<close> here, the
  other spelling being a constant of the library). \<open>data = None\<close> is Python's \<^verbatim>\<open>None\<close>; a value of
  the data is \<open>None\<close> for \<^verbatim>\<open>None\<close> and \<open>Some v\<close> otherwise. \<^verbatim>\<open>copy(data)\<close> is a shallow
  copy of a list that is only read, so it leaves no trace in the model.
\<close>

definition populate ::
  "'a option list list option \<Rightarrow> bool \<Rightarrow> bool \<Rightarrow> 'a table
     \<Rightarrow> ((error \<times> 'a table) + 'a table) option"
where
  "populate data resize_x normalise self =
     (case data of
        None \<Rightarrow> Some (Inl (WidgetDataError, self))
      | Some d \<Rightarrow>
          let self1 = (if body_rows self = [] then add_body self else self);
              self2 = clear self1
          in case py_max (map length d) of
               Inl e \<Rightarrow> Some (Inl (e, self2))
             | Inr max_data_x \<Rightarrow>
                 (case (if \<not> resize_x then check_row_size self2 max_data_x else None) of
                    Some e \<Rightarrow> Some (Inl (e, self2))
                  | None \<Rightarrow>
                      (case rows_loop resize_x normalise max_data_x (body_rows self2)
                              (Some 0) d of
                         None \<Rightarrow> None
                       | Some (rows, None) \<Rightarrow> Some (Inr (set_body_rows rows self2))
                       | Some (rows, Some e) \<Rightarrow>
                           Some (Inl (e, set_body_rows rows self2)))))"

subsection \<open>\<^verbatim>\<open>TempyTable.add_row\<close>\<close>

text \<open>
  \<^verbatim>\<open>
  def add_row(self, row_data, resize_x=True):
      if not resize_x:
          self._check_row_size(row_data)
      self.body(Tr()(Td()(cell) for cell in row_data))
      return self
  \<close>
\<close>

definition add_row :: "'a list \<Rightarrow> bool \<Rightarrow> 'a table \<Rightarrow> (error \<times> 'a table) + 'a table" where
  "add_row row_data resize_x self =
     (case (if \<not> resize_x then check_row_size self (length row_data) else None) of
        Some e \<Rightarrow> Inl (e, self)
      | None \<Rightarrow>
          Inr (set_body_rows
                 (body_rows self @ [map (\<lambda>cell. Cell Td [cell] []) row_data]) self))"

subsection \<open>Header, footer and caption\<close>

text \<open>
  \<^verbatim>\<open>
  def _make_table_part(self, part, data):
      part_tag, inner_tag = {'header': (Thead, Th), 'footer': (Tfoot, Td)}.get(part)
      part_instance = part_tag().append_to(self)
      if not hasattr(self, part):
          setattr(self, part, part_instance)
      return part_instance(Tr()(inner_tag()(col) for col in data))
  \<close>
  \<open>part_instance\<close> is the position of the node appended to the table.
\<close>

datatype part_name = header_part | footer_part

definition make_table_part :: "part_name \<Rightarrow> 'a list \<Rightarrow> 'a table \<Rightarrow> 'a table" where
  "make_table_part part data self =
     (let inner_tag = (case part of header_part \<Rightarrow> Th | footer_part \<Rightarrow> Td);
          part_instance = length (table_childs self);
          self1 = self\<lparr>table_childs := table_childs self @
                    [case part of header_part \<Rightarrow> Thead [] | footer_part \<Rightarrow> Tfoot []]\<rparr>;
          self2 = (case part of
                     header_part \<Rightarrow>
                       if header self1 = None then self1\<lparr>header := Some part_instance\<rparr>
                       else self1
                   | footer_part \<Rightarrow>
                       if footer self1 = None then self1\<lparr>footer := Some part_instance\<rparr>
                       else self1);
          tr = map (\<lambda>col. Cell inner_tag [col] []) data
      in self2\<lparr>table_childs := (table_childs self2)
                 [part_instance := (case part of header_part \<Rightarrow> Thead [tr]
                                    | footer_part \<Rightarrow> Tfoot [tr])]\<rparr>)"

definition make_header :: "'a list \<Rightarrow> 'a table \<Rightarrow> 'a table" where
  "make_header head self = make_table_part header_part head self"

definition make_footer :: "'a list \<Rightarrow> 'a table \<Rightarrow> 'a table" where
  "make_footer foot self = make_table_part footer_part foot self"

text \<open>
  \<^verbatim>\<open>
  def make_caption(self, caption):
      if not hasattr(self, 'caption'):
          self(caption=Caption())
      return self.caption.empty()(caption)
  \<close>
\<close>

definition make_caption :: "'a \<Rightarrow> 'a table \<Rightarrow> 'a table" where
  "make_caption text self =
     (let self1 = (if caption self = None
                   then self\<lparr>table_childs := table_childs self @ [Caption []],
                             caption := Some (length (table_childs self))\<rparr>
                   else self)
      in case caption self1 of
           None \<Rightarrow> self1
         | Some i \<Rightarrow> self1\<lparr>table_childs := (table_childs self1)[i := Caption [text]]\<rparr>)"

subsection \<open>Bounds checks and \<^verbatim>\<open>col_class\<close>\<close>

text \<open>Both checks return \<^verbatim>\<open>True\<close> or raise; an index is a Python integer.\<close>

definition is_row_within_bounds :: "int \<Rightarrow> 'a table \<Rightarrow> error + bool" where
  "is_row_within_bounds row_index self =
     (if 0 \<le> row_index \<and> row_index < int (length (body_rows self)) then Inr True
      else Inl WidgetDataError)"

definition is_col_within_bounds :: "int \<Rightarrow> 'a row \<Rightarrow> error + bool" where
  "is_col_within_bounds col_index row =
     (if 0 \<le> col_index \<and> col_index < int (length row) then Inr True
      else Inl WidgetDataError)"

text \<open>
  The loop of \<^verbatim>\<open>col_class\<close> for a given index, over the rows of the body:
  \<^verbatim>\<open>
  for row in self.body.childs:
      if self.is_col_within_bounds(col_index, row) and len(row.childs[col_index].childs) > 0:
          row.childs[col_index].attr(klass=css_class)
  \<close>
  The result is the rows left behind and the exception raised, if any.
\<close>

fun col_class_rows :: "string \<Rightarrow> int \<Rightarrow> 'a row list \<Rightarrow> 'a row list \<times> error option" where
  "col_class_rows css_class col_index [] = ([], None)"
| "col_class_rows css_class col_index (row # rows) =
     (case is_col_within_bounds col_index row of
        Inl e \<Rightarrow> (row # rows, Some e)
      | Inr ok \<Rightarrow>
          (let row1 = (if ok \<and> childs (row ! nat col_index) \<noteq> []
                       then row[nat col_index := attr_klass css_class (row ! nat col_index)]
                       else row)
           in case col_class_rows css_class col_index rows of
                (rows1, r) \<Rightarrow> (row1 # rows1, r)))"

text \<open>
  Without an index, \<^verbatim>\<open>col_class\<close> runs over every cell of every row (its comment reads
  "adds css_class to every cell"):
  \<^verbatim>\<open>
  gen = ((row, cell) for row in self.body.childs for cell in row.childs)
  for (row, cell) in gen:
      cell.attr(klass=css_class)
  \<close>
\<close>

definition col_class ::
  "string \<Rightarrow> int option \<Rightarrow> 'a table \<Rightarrow> (error \<times> 'a table) + 'a table" where
  "col_class css_class col_index self =
     (case col_index of
        None \<Rightarrow>
          Inr (set_body_rows (map (map (attr_klass css_class)) (body_rows self)) self)
      | Some i \<Rightarrow>
          (case col_class_rows css_class i (body_rows self) of
             (rows, None) \<Rightarrow> Inr (set_body_rows rows self)
           | (rows, Some e) \<Rightarrow> Inl (e, set_body_rows rows self)))"

subsection \<open>\<^verbatim>\<open>map_col\<close>, \<^verbatim>\<open>map_row\<close>, \<^verbatim>\<open>map_table\<close>\<close>

text \<open>
  Modelled from the spec: \<^verbatim>\<open>apply_function\<close>, a method of the base class of the tags.
  The spec has the transform applied to the content of the cell: each content value is
  replaced by the transform's result, in order; when the transform raises, the values
  before stay replaced and the exception leaves the cell. A transform is a function
  \<open>'a \<Rightarrow> error + 'a\<close>.
\<close>

fun apply_function_childs :: "('a \<Rightarrow> error + 'a) \<Rightarrow> 'a list \<Rightarrow> 'a list \<times> error option" where
  "apply_function_childs format_function [] = ([], None)"
| "apply_function_childs format_function (x # xs) =
     (case format_function x of
        Inl e \<Rightarrow> (x # xs, Some e)
      | Inr y \<Rightarrow>
          (case apply_function_childs format_function xs of (ys, r) \<Rightarrow> (y # ys, r)))"

definition apply_function :: "('a \<Rightarrow> error + 'a) \<Rightarrow> 'a cell \<Rightarrow> 'a cell \<times> error option" where
  "apply_function format_function c =
     (case apply_function_childs format_function (childs c) of
        (ys, r) \<Rightarrow> (Cell (tag c) ys (attrs c), r))"

text \<open>
  \<^verbatim>\<open>
  def apply_function_to_cells(gen, format_function, ignore_errors):
      try:
          for cell in gen:
              cell.apply_function(format_function)
      except Exception as ex:
          if ignore_errors: pass
          else: raise ex
  \<close>
  Every caller passes the generator \<^verbatim>\<open>(cell for cell in row.childs if len(cell.childs) > 0)\<close>
  of one row, so \<open>gen\<close> is given as that row: \<open>cells_pass\<close> is the \<^verbatim>\<open>for\<close> loop over the
  cells the generator yields, \<open>apply_function_to_cells\<close> the \<^verbatim>\<open>try\<close> around it.
\<close>

fun cells_pass :: "('a \<Rightarrow> error + 'a) \<Rightarrow> 'a row \<Rightarrow> 'a row \<times> error option" where
  "cells_pass format_function [] = ([], None)"
| "cells_pass format_function (cell # cells) =
     (if childs cell \<noteq> [] then
        (case apply_function format_function cell of
           (cell1, Some e) \<Rightarrow> (cell1 # cells, Some e)
         | (cell1, None) \<Rightarrow>
             (case cells_pass format_function cells of (cells1, r) \<Rightarrow> (cell1 # cells1, r)))
      else
        (case cells_pass format_function cells of (cells1, r) \<Rightarrow> (cell # cells1, r)))"

definition apply_function_to_cells ::
  "'a row \<Rightarrow> ('a \<Rightarrow> error + 'a) \<Rightarrow> bool \<Rightarrow> 'a row \<times> error option" where
  "apply_function_to_cells gen format_function ignore_errors =
     (case cells_pass format_function gen of
        (cells, None) \<Rightarrow> (cells, None)
      | (cells, Some ex) \<Rightarrow> (cells, if ignore_errors then None else Some ex))"

text \<open>
  \<^verbatim>\<open>
  def map_table(self, format_function, ignore_errors=True):
      for row in self.body.childs:
          gen = (cell for cell in row.childs if len(cell.childs) > 0)
          self.apply_function_to_cells(gen, format_function, ignore_errors)
  \<close>
\<close>

fun map_table_rows ::
  "('a \<Rightarrow> error + 'a) \<Rightarrow> bool \<Rightarrow> 'a row list \<Rightarrow> 'a row list \<times> error option" where
  "map_table_rows format_function ignore_errors [] = ([], None)"
| "map_table_rows format_function ignore_errors (row # rows) =
     (case apply_function_to_cells row format_function ignore_errors of
        (row1, Some e) \<Rightarrow> (row1 # rows, Some e)
      | (row1, None) \<Rightarrow>
          (case map_table_rows format_function ignore_errors rows of
             (rows1, r) \<Rightarrow> (row1 # rows1, r)))"

definition map_table ::
  "('a \<Rightarrow> error + 'a) \<Rightarrow> bool \<Rightarrow> 'a table \<Rightarrow> (error \<times> 'a table) + 'a table" where
  "map_table format_function ignore_errors self =
     (case map_table_rows format_function ignore_errors (body_rows self) of
        (rows, None) \<Rightarrow> Inr (set_body_rows rows self)
      | (rows, Some e) \<Rightarrow> Inl (e, set_body_rows rows self))"

text \<open>
  \<^verbatim>\<open>
  def map_row(self, row_function, row_index=None, ignore_errors=True):
      if row_index is None:
          self.map_table(row_function)
          return self
      if self.is_row_within_bounds(row_index):
          gen = (cell for cell in self.body.childs[row_index].childs if len(cell.childs) > 0)
          self.apply_function_to_cells(gen, row_function, ignore_errors)
  \<close>
  Without an index the call goes to \<^verbatim>\<open>map_table\<close> with that method's default
  \<^verbatim>\<open>ignore_errors=True\<close>.
\<close>

definition map_row ::
  "('a \<Rightarrow> error + 'a) \<Rightarrow> int option \<Rightarrow> bool \<Rightarrow> 'a table \<Rightarrow> (error \<times> 'a table) + 'a table"
where
  "map_row row_function row_index ignore_errors self =
     (case row_index of
        None \<Rightarrow> map_table row_function True self
      | Some i \<Rightarrow>
          (case is_row_within_bounds i self of
             Inl e \<Rightarrow> Inl (e, self)
           | Inr ok \<Rightarrow>
               if ok then
                 (case apply_function_to_cells (body_rows self ! nat i) row_function
                         ignore_errors of
                    (cells, None) \<Rightarrow>
                      Inr (set_body_rows ((body_rows self)[nat i := cells]) self)
                  | (cells, Some e) \<Rightarrow>
                      Inl (e, set_body_rows ((body_rows self)[nat i := cells]) self))
               else Inr self))"

text \<open>
  \<^verbatim>\<open>
  def map_col(self, col_function, col_index=None, ignore_errors=True):
      if col_index is None:
          self.map_table(col_function)
          return self
      gen = (row for row in self.body.childs
             if self.is_col_within_bounds(col_index, row)
             and len(row.childs[col_index].childs) > 0)
      try:
          for row in gen:
              row.childs[col_index].apply_function(col_function)
      except Exception as ex:
          if ignore_errors: pass
          else: raise ex
  \<close>
  \<open>map_col_rows\<close> is the \<^verbatim>\<open>for\<close> loop together with the generator it draws from: the
  bounds check runs inside the \<^verbatim>\<open>try\<close>, when the generator looks at the next row.
\<close>

fun map_col_rows ::
  "('a \<Rightarrow> error + 'a) \<Rightarrow> int \<Rightarrow> 'a row list \<Rightarrow> 'a row list \<times> error option" where
  "map_col_rows col_function col_index [] = ([], None)"
| "map_col_rows col_function col_index (row # rows) =
     (case is_col_within_bounds col_index row of
        Inl e \<Rightarrow> (row # rows, Some e)
      | Inr ok \<Rightarrow>
          if ok \<and> childs (row ! nat col_index) \<noteq> [] then
            (case apply_function col_function (row ! nat col_index) of
               (cell1, Some e) \<Rightarrow> (row[nat col_index := cell1] # rows, Some e)
             | (cell1, None) \<Rightarrow>
                 (case map_col_rows col_function col_index rows of
                    (rows1, r) \<Rightarrow> (row[nat col_index := cell1] # rows1, r)))
          else
            (case map_col_rows col_function col_index rows of
               (rows1, r) \<Rightarrow> (row # rows1, r)))"

definition map_col ::
  "('a \<Rightarrow> error + 'a) \<Rightarrow> int option \<Rightarrow> bool \<Rightarrow> 'a table \<Rightarrow> (error \<times> 'a table) + 'a table"
where
  "map_col col_function col_index ignore_errors self =
     (case col_index of
        None \<Rightarrow> map_table col_function True self
      | Some i \<Rightarrow>
          (case map_col_rows col_function i (body_rows self) of
             (rows, None) \<Rightarrow> Inr (set_body_rows rows self)
           | (rows, Some ex) \<Rightarrow>
               if ignore_errors then Inr (set_body_rows rows self)
               else Inl (ex, set_body_rows rows self)))"

section \<open>\<^verbatim>\<open>TempyList\<close>\<close>

subsection \<open>Input structures and list trees\<close>

text \<open>
  Modelled from the spec: the classes of the module \<^verbatim>\<open>tempy.tags\<close> that a list is built
  on. The spec has three list kinds (unordered, ordered, definition): \<^verbatim>\<open>Ul\<close>, \<^verbatim>\<open>Ol\<close>,
  \<^verbatim>\<open>Dl\<close>. \<open>tags_getattr name\<close> is
  \<^verbatim>\<open>getattr(tags, name)\<close>; \<open>None\<close> stands for its \<^verbatim>\<open>AttributeError\<close>.
\<close>

datatype kind = Ul | Ol | Dl

definition tags_getattr :: "string \<Rightarrow> kind option" where
  "tags_getattr name =
     (if name = ''Ul'' then Some Ul
      else if name = ''Ol'' then Some Ol
      else if name = ''Dl'' then Some Dl
      else None)"

text \<open>
  The values \<^verbatim>\<open>TempyList\<close> is given, as \<^verbatim>\<open>typ\<close> or as \<^verbatim>\<open>struct\<close>: \<^verbatim>\<open>None\<close>, a string, a tag
  class, a list or tuple of keys, a \<^verbatim>\<open>dict\<close> from keys to values. A key, and an element of
  a sequence, is a string or \<^verbatim>\<open>None\<close>. (A \<^verbatim>\<open>set\<close> is iterated in an order the program does
  not fix; it is given as the sequence of its elements in the order of iteration.)
\<close>

datatype key = KNone | KStr string

datatype val =
    VNone
  | VStr string
  | VTag kind
  | VSeq "key list"
  | VMap "(key \<times> val) list"

fun val_of_key :: "key \<Rightarrow> val" where
  "val_of_key KNone = VNone"
| "val_of_key (KStr s) = VStr s"

text \<open>Python's truth value of such a value.\<close>

fun truthy :: "val \<Rightarrow> bool" where
  "truthy VNone = False"
| "truthy (VStr s) = (s \<noteq> [])"
| "truthy (VTag k) = True"
| "truthy (VSeq xs) = (xs \<noteq> [])"
| "truthy (VMap m) = (m \<noteq> [])"

text \<open>
  The tree built: a root of some kind with its items in order. An \<^verbatim>\<open>Li\<close> holds its key
  and, if its value was not empty, the sublist built from that value; \<^verbatim>\<open>Dt\<close> holds a
  key, \<^verbatim>\<open>Dd\<close> a value.
\<close>

datatype tree = ListTree kind "item list"
  and item = Li key "tree option" | Dt key | Dd val

text \<open>
  \<^verbatim>\<open>dict(pairs)\<close> inserts the pairs in order; \<^verbatim>\<open>d.pop(k)\<close> returns the value of \<open>k\<close> and
  removes the key, \<open>None\<close> stands for its \<^verbatim>\<open>KeyError\<close>. \<^verbatim>\<open>zip_longest(struct, [None])\<close>
  runs until both arguments are exhausted and fills the shorter one with \<^verbatim>\<open>None\<close>: it
  pairs every element of \<^verbatim>\<open>struct\<close> with \<^verbatim>\<open>None\<close>, and for an empty \<^verbatim>\<open>struct\<close> it still
  yields the one pair \<^verbatim>\<open>(None, None)\<close> that the second argument gives rise to.
\<close>

definition dict :: "('k \<times> 'v) list \<Rightarrow> ('k \<times> 'v) list" where
  "dict pairs = foldl (\<lambda>d (k, v). dict_set k v d) [] pairs"

definition dict_pop :: "'k \<Rightarrow> ('k \<times> 'v) list \<Rightarrow> ('v \<times> ('k \<times> 'v) list) option" where
  "dict_pop k d =
     (case map_of d k of
        None \<Rightarrow> None
      | Some v \<Rightarrow> Some (v, filter (\<lambda>p. fst p \<noteq> k) d))"

definition zip_longest_None :: "key list \<Rightarrow> (key \<times> val) list" where
  "zip_longest_None struct =
     (if struct = [] then [(KNone, VNone)] else map (\<lambda>x. (x, VNone)) struct)"

subsection \<open>\<^verbatim>\<open>TempyList.__new__\<close>: the kind of the list\<close>

text \<open>
  The first half of \<^verbatim>\<open>__new__\<close>, up to \<^verbatim>\<open>typ = typ or Ul\<close>:
  \<^verbatim>\<open>
  try:
      typ = struct.pop('_typ')
  except (TypeError, KeyError, AttributeError):
      pass
  if isinstance(typ, str):
      try:
          typ = getattr(tags, typ)
      except AttributeError:
          raise WidgetError(cls, 'TempyList type not expected.')
  typ = typ or Ul
  \<close>
  \<^verbatim>\<open>pop\<close> succeeds on a \<^verbatim>\<open>dict\<close> that has the key and raises one of the three caught
  exceptions on everything else. The result is the class the list is built on and the
  structure, without the key if it was popped. \<^verbatim>\<open>typ.__name__\<close>, read next, raises
  \<^verbatim>\<open>AttributeError\<close> for a value that is not a class.
\<close>

definition new_typ :: "val \<Rightarrow> val \<Rightarrow> error + (kind \<times> val)" where
  "new_typ typ struct =
     (let (typ1, struct1) =
            (case struct of
               VMap d \<Rightarrow>
                 (case dict_pop (KStr ''_typ'') d of
                    Some (v, d1) \<Rightarrow> (v, VMap d1)
                  | None \<Rightarrow> (typ, struct))
             | _ \<Rightarrow> (typ, struct))
      in case (case typ1 of
                 VStr name \<Rightarrow>
                   (case tags_getattr name of
                      Some k \<Rightarrow> Inr (VTag k)
                    | None \<Rightarrow> Inl WidgetError)
               | _ \<Rightarrow> Inr typ1) of
           Inl e \<Rightarrow> Inl e
         | Inr typ2 \<Rightarrow>
             (case (if truthy typ2 then typ2 else VTag Ul) of
                VTag k \<Rightarrow> Inr (k, struct1)
              | _ \<Rightarrow> Inl AttributeError))"

subsection \<open>\<^verbatim>\<open>TempyListMeta.populate\<close>\<close>

text \<open>
  \<^verbatim>\<open>
  def __process_li_struct(self, struct):
      for k, submenu in struct.items():
          item = Li()(k)
          self(item)
          if submenu:
              item(TempyList(typ=self._typ, struct=submenu))
  \<close>
  \<open>sublist\<close> is \<^verbatim>\<open>TempyList(typ=self._typ, struct=submenu)\<close> as a function of
  \<open>submenu\<close>; an exception of that call ends the construction.
\<close>

fun process_li_struct ::
  "(val \<Rightarrow> error + tree) \<Rightarrow> (key \<times> val) list \<Rightarrow> error + item list" where
  "process_li_struct sublist [] = Inr []"
| "process_li_struct sublist ((k, submenu) # struct) =
     (if truthy submenu then
        (case sublist submenu of
           Inl e \<Rightarrow> Inl e
         | Inr t \<Rightarrow>
             (case process_li_struct sublist struct of
                Inl e \<Rightarrow> Inl e
              | Inr items \<Rightarrow> Inr (Li k (Some t) # items)))
      else
        (case process_li_struct sublist struct of
           Inl e \<Rightarrow> Inl e
         | Inr items \<Rightarrow> Inr (Li k None # items)))"

text \<open>
  \<^verbatim>\<open>
  def __process_dl_struct(self, struct):
      for k, submenu in struct.items():
          item = Dt()(k)
          self(item)
          if submenu:
              if isinstance(submenu, (list, set, tuple, dict)):
                  for elem in submenu:
                      self(Dd()(elem))
              else:
                  self(Dd()(submenu))
  \<close>
  Iterating over a \<^verbatim>\<open>dict\<close> gives its keys.
\<close>

fun process_dl_struct :: "(key \<times> val) list \<Rightarrow> item list" where
  "process_dl_struct [] = []"
| "process_dl_struct ((k, submenu) # struct) =
     Dt k #
     (if truthy submenu then
        (case submenu of
           VSeq xs \<Rightarrow> map (\<lambda>elem. Dd (val_of_key elem)) xs
         | VMap d \<Rightarrow> map (\<lambda>elem. Dd (val_of_key (fst elem))) d
         | _ \<Rightarrow> [Dd submenu])
      else []) @
     process_dl_struct struct"

text \<open>
  \<^verbatim>\<open>
  def populate(self, struct):
      if struct is None:
          return self
      if isinstance(struct, (list, set, tuple)):
          struct = dict(zip_longest(struct, [None]))
      if not isinstance(struct, dict):
          raise WidgetDataError(...)
      else:
          if self._typ == Dl:
              self.__process_dl_struct(struct)
          else:
              self.__process_li_struct(struct)
      return self
  \<close>
  The result is the list of items of the root.
\<close>

definition TempyListMeta_populate ::
  "(val \<Rightarrow> error + tree) \<Rightarrow> kind \<Rightarrow> val \<Rightarrow> error + item list" where
  "TempyListMeta_populate sublist typ struct =
     (case (case struct of
              VNone \<Rightarrow> Inr None
            | VSeq xs \<Rightarrow> Inr (Some (dict (zip_longest_None xs)))
            | VMap d \<Rightarrow> Inr (Some d)
            | _ \<Rightarrow> Inl WidgetDataError) of
        Inl e \<Rightarrow> Inl e
      | Inr None \<Rightarrow> Inr []
      | Inr (Some d) \<Rightarrow>
          if typ = Dl then Inr (process_dl_struct d)
          else process_li_struct sublist d)"

subsection \<open>\<^verbatim>\<open>TempyList\<close> itself\<close>

text \<open>
  The sublists are built by \<^verbatim>\<open>TempyList\<close> again, so the function is recursive through
  \<open>process_li_struct\<close>. It calls itself on values of the structure only, and only on
  those that are not empty: the two congruence rules say so, and the recursion ends
  because a value of a \<^verbatim>\<open>dict\<close> is smaller than the \<^verbatim>\<open>dict\<close>.
\<close>

lemma process_li_struct_cong [fundef_cong]:
  assumes "struct = struct'"
    and "\<And>k submenu. (k, submenu) \<in> set struct' \<Longrightarrow> truthy submenu \<Longrightarrow> sublist submenu = sublist' submenu"
  shows "process_li_struct sublist struct = process_li_struct sublist' struct'"
  using assms(2) unfolding assms(1)
proof (induction struct')
  case Nil
  show ?case by simp
next
  case (Cons p struct')
  obtain k submenu where p: "p = (k, submenu)" by (cases p)
  have "\<And>k submenu. (k, submenu) \<in> set struct' \<Longrightarrow> truthy submenu
          \<Longrightarrow> sublist submenu = sublist' submenu"
    using Cons.prems by auto
  then have rest: "process_li_struct sublist struct' = process_li_struct sublist' struct'"
    by (rule Cons.IH)
  show ?case
  proof (cases "truthy submenu")
    case True
    with Cons.prems [of k submenu] p have "sublist submenu = sublist' submenu" by simp
    with rest p show ?thesis by (simp split: sum.split)
  next
    case False
    with rest p show ?thesis by (simp split: sum.split)
  qed
qed

lemma dict_set_values:
  "\<forall>p \<in> set d. snd p = w \<Longrightarrow> \<forall>p \<in> set (dict_set k w d). snd p = w"
  by (induction d) auto

lemma foldl_dict_set_values:
  "\<forall>p \<in> set d. snd p = VNone \<Longrightarrow> \<forall>p \<in> set ps. snd p = VNone \<Longrightarrow>
   \<forall>p \<in> set (foldl (\<lambda>d (k, v). dict_set k v d) d ps). snd p = VNone"
proof (induction ps arbitrary: d)
  case Nil
  then show ?case by simp
next
  case (Cons p ps)
  obtain k where p: "p = (k, VNone)" using Cons.prems(2) by (cases p) auto
  from Cons.prems(1) have "\<forall>p \<in> set (dict_set k VNone d). snd p = VNone"
    by (rule dict_set_values)
  from Cons.IH [OF this] Cons.prems(2) p show ?case by simp
qed

lemma dict_zip_longest_falsy:
  "(k, v) \<in> set (dict (zip_longest_None xs)) \<Longrightarrow> \<not> truthy v"
  using foldl_dict_set_values [of "[]" "zip_longest_None xs"]
  by (auto simp: dict_def zip_longest_None_def split: if_splits)

lemma TempyListMeta_populate_cong [fundef_cong]:
  assumes "typ = typ'" and "struct = struct'"
    and "\<And>d k submenu. struct' = VMap d \<Longrightarrow> (k, submenu) \<in> set d \<Longrightarrow> truthy submenu
           \<Longrightarrow> sublist submenu = sublist' submenu"
  shows "TempyListMeta_populate sublist typ struct = TempyListMeta_populate sublist' typ' struct'"
proof (cases struct')
  case (VSeq xs)
  have "process_li_struct sublist (dict (zip_longest_None xs)) =
        process_li_struct sublist' (dict (zip_longest_None xs))"
    by (rule process_li_struct_cong) (auto dest: dict_zip_longest_falsy)
  with VSeq assms(1,2) show ?thesis by (simp add: TempyListMeta_populate_def)
next
  case (VMap d)
  have "process_li_struct sublist d = process_li_struct sublist' d"
    by (rule process_li_struct_cong) (auto intro: assms(3) [OF VMap])
  with VMap assms(1,2) show ?thesis by (simp add: TempyListMeta_populate_def)
qed (use assms(1,2) in \<open>simp_all add: TempyListMeta_populate_def\<close>)

lemma size_submenu: "(k, v) \<in> set d \<Longrightarrow> size v < size (VMap d)"
  by (induction d) auto

lemma new_typ_submenu:
  assumes "new_typ typ struct = Inr (kd, VMap d)" and "(k, v) \<in> set d"
  shows "size v < size struct"
proof (cases struct)
  case (VMap d0)
  with assms(1) have "set d \<subseteq> set d0"
    by (auto simp: new_typ_def dict_pop_def Let_def split: option.splits sum.splits val.splits if_splits prod.splits)
  with assms(2) have "(k, v) \<in> set d0" by blast
  with VMap size_submenu [of k v d0] show ?thesis by simp
qed (use assms(1) in \<open>auto simp: new_typ_def Let_def split: option.splits sum.splits val.splits if_splits\<close>)

text \<open>
  \<^verbatim>\<open>
  def __new__(cls, typ=None, struct=None):
      ...
      cls_typ = type("TempyList%s" % typ.__name__, (TempyListMeta, typ), {})
      return cls_typ(struct=struct)
  \<close>
  The constructor of the new class is \<^verbatim>\<open>TempyListMeta.__init__\<close>, which keeps the class as
  \<^verbatim>\<open>self._typ\<close> and calls \<^verbatim>\<open>populate(struct=struct)\<close>.
\<close>

function TempyList :: "val \<Rightarrow> val \<Rightarrow> error + tree" where
  "TempyList typ struct =
     (case new_typ typ struct of
        Inl e \<Rightarrow> Inl e
      | Inr (k, struct1) \<Rightarrow>
          (case TempyListMeta_populate (TempyList (VTag k)) k struct1 of
             Inl e \<Rightarrow> Inl e
           | Inr items \<Rightarrow> Inr (ListTree k items)))"
  by pat_completeness auto
termination
  by (relation "measure (\<lambda>(typ, struct). size struct)") (auto dest: new_typ_submenu)

section \<open>Notions used in the statements\<close>

text \<open>
  The cell \<^verbatim>\<open>populate\<close> makes of one value of the data: a new \<^verbatim>\<open>Td\<close> without
  attributes, without content for \<^verbatim>\<open>None\<close> and with the value as its only content
  otherwise; the row it makes of one row of the data; and the table after the first two
  statements of \<^verbatim>\<open>populate\<close> that follow the test for \<^verbatim>\<open>None\<close> (a new body when the
  body is empty).
\<close>

definition cell_of :: "'a option \<Rightarrow> 'a cell" where
  "cell_of d_cell = (case d_cell of None \<Rightarrow> Cell Td [] [] | Some v \<Rightarrow> Cell Td [v] [])"

definition row_of :: "bool \<Rightarrow> nat \<Rightarrow> 'a option list \<Rightarrow> 'a row" where
  "row_of normalise max_data_x d_row =
     map cell_of (if normalise then ljust d_row max_data_x None else d_row)"

definition fresh_body :: "'a table \<Rightarrow> 'a table" where
  "fresh_body self = (if body_rows self = [] then add_body self else self)"

text \<open>What a call left behind: the exception, if any, and the table.\<close>

definition raised :: "('e \<times> 's) + 's \<Rightarrow> 'e option" where
  "raised r = (case r of Inl (e, _) \<Rightarrow> Some e | Inr _ \<Rightarrow> None)"

definition table_after :: "('e \<times> 's) + 's \<Rightarrow> 's" where
  "table_after r = (case r of Inl (_, s) \<Rightarrow> s | Inr s \<Rightarrow> s)"

text \<open>The \<^verbatim>\<open>Thead\<close> and the \<^verbatim>\<open>Tfoot\<close> nodes among the children of a table.\<close>

definition header_containers :: "'a table \<Rightarrow> 'a part list" where
  "header_containers self = filter (\<lambda>p. case p of Thead _ \<Rightarrow> True | _ \<Rightarrow> False) (table_childs self)"

definition footer_containers :: "'a table \<Rightarrow> 'a part list" where
  "footer_containers self = filter (\<lambda>p. case p of Tfoot _ \<Rightarrow> True | _ \<Rightarrow> False) (table_childs self)"

text \<open>
  A transform passes a cell when \<^verbatim>\<open>apply_function\<close> raises nothing on it; the processed
  cell is the cell \<^verbatim>\<open>apply_function\<close> leaves behind.
\<close>

definition passes :: "('a \<Rightarrow> error + 'a) \<Rightarrow> 'a cell \<Rightarrow> bool" where
  "passes fn c \<longleftrightarrow> snd (apply_function fn c) = None"

definition processed :: "('a \<Rightarrow> error + 'a) \<Rightarrow> 'a cell \<Rightarrow> 'a cell" where
  "processed fn c = fst (apply_function fn c)"

text \<open>The kind of the root of a list.\<close>

fun root_kind :: "tree \<Rightarrow> kind" where
  "root_kind (ListTree k items) = k"

text \<open>
  Tables and a transform for the examples: a body of two rows with one cell without
  content, a body of three rows, and a transform that raises on \<open>1\<close> and adds \<open>10\<close> to
  every other number.
\<close>

definition grid :: "nat table" where
  "grid = \<lparr>table_childs =
             [Tbody [[Cell Td [1] [], Cell Td [2] []],
                     [Cell Td [3] [], Cell Td [] []]]],
           body = 0, header = None, footer = None, caption = None\<rparr>"

definition grid3 :: "nat table" where
  "grid3 = \<lparr>table_childs =
              [Tbody [[Cell Td [5] [], Cell Td [6] []],
                      [Cell Td [2] [], Cell Td [1] [], Cell Td [3] []],
                      [Cell Td [4] [], Cell Td [7] []]]],
            body = 0, header = None, footer = None, caption = None\<rparr>"

fun fails_on_one :: "nat \<Rightarrow> error + nat" where
  "fails_on_one x = (if x = 1 then Inl (Raised ''one'') else Inr (x + 10))"

section \<open>The loops of \<^verbatim>\<open>populate\<close> on a cleared body\<close>

text \<open>
  \<^verbatim>\<open>populate\<close> empties the body before it pairs rows with data, so the iterator over the
  rows is exhausted at the first step, and so is the iterator over the cells of every row,
  which is new. From then on each loop only appends.
\<close>

lemma cells_loop_exhausted:
  "cells_loop resize_x t_row None d_row =
     (if d_row = [] then Some (t_row, None)
      else if resize_x then Some (t_row @ map cell_of d_row, None)
      else Some (t_row, Some AttributeError))"
proof (induction d_row arbitrary: t_row)
  case Nil
  show ?case by (subst cells_loop.simps) (simp add: next_ix_def)
next
  case (Cons v vs)
  show ?case
  proof (cases resize_x)
    case False
    then show ?thesis by (subst cells_loop.simps) (simp add: next_ix_def)
  next
    case True
    have "cells_loop resize_x t_row None (v # vs) = cells_loop resize_x (t_row @ [cell_of v]) None vs"
      using True
      by (subst cells_loop.simps)
         (simp add: next_ix_def cell_of_def empty_def call_def split: option.split)
    with True Cons.IH [of "t_row @ [cell_of v]"] show ?thesis by simp
  qed
qed

lemma cells_loop_new_row:
  "cells_loop resize_x [] (Some 0) d_row = cells_loop resize_x [] None d_row"
  by (subst cells_loop.simps, subst (2) cells_loop.simps) (simp add: next_ix_def)

lemma rows_loop_exhausted_fixed:
  "rows_loop False normalise mx rows None data =
     (case data of
        [] \<Rightarrow> Some (rows, None)
      | d # _ \<Rightarrow> if d = [] then Some (rows, Some AttributeError)
                 else Some (rows @ [[]], Some AttributeError))"
  by (subst rows_loop.simps)
     (simp add: next_ix_def cells_loop_new_row cells_loop_exhausted ljust_def split: list.split)

lemma rows_loop_exhausted_step:
  "d \<noteq> [] \<Longrightarrow>
   rows_loop True normalise mx rows None (d # ds) =
   rows_loop True normalise mx (rows @ [row_of normalise mx d]) None ds"
  by (subst rows_loop.simps)
     (simp add: next_ix_def cells_loop_new_row cells_loop_exhausted ljust_def row_of_def)

lemma rows_loop_exhausted:
  "rows_loop True normalise mx rows None data =
     (if [] \<notin> set data
      then Some (rows @ map (row_of normalise mx) data, None)
      else Some (rows @ map (row_of normalise mx) (takeWhile (\<lambda>d. d \<noteq> []) data),
                 Some AttributeError))"
proof (induction data arbitrary: rows)
  case Nil
  show ?case by (subst rows_loop.simps) (simp add: next_ix_def)
next
  case (Cons d ds)
  show ?case
  proof (cases "d = []")
    case True
    then show ?thesis by (subst rows_loop.simps) (simp add: next_ix_def)
  next
    case False
    with Cons.IH [of "rows @ [row_of normalise mx d]"] show ?thesis
      by (simp add: rows_loop_exhausted_step)
  qed
qed

lemma rows_loop_cleared:
  "rows_loop resize_x normalise mx [] (Some 0) data = rows_loop resize_x normalise mx [] None data"
  by (subst rows_loop.simps, subst (2) rows_loop.simps) (simp add: next_ix_def)

lemma body_rows_clear [simp]: "body_rows (clear self) = []"
  by (simp add: body_rows_def clear_def set_body_rows_def split: part.split)

lemma set_body_rows_twice [simp]:
  "set_body_rows rows (set_body_rows rows' self) = set_body_rows rows self"
  by (simp add: set_body_rows_def)

lemma set_body_rows_clear [simp]:
  "set_body_rows rows (clear self) = set_body_rows rows self"
  by (simp add: clear_def)

lemma check_row_size_clear [simp]: "check_row_size (clear self) n = None"
  by (simp add: check_row_size_def)

lemma populate_resize:
  "populate (Some d) True normalise self =
     Some (case py_max (map length d) of
             Inl e \<Rightarrow> Inl (e, clear (fresh_body self))
           | Inr mx \<Rightarrow>
               if [] \<notin> set d
               then Inr (set_body_rows (map (row_of normalise mx) d) (fresh_body self))
               else Inl (AttributeError,
                      set_body_rows (map (row_of normalise mx) (takeWhile (\<lambda>r. r \<noteq> []) d))
                        (fresh_body self)))"
  by (simp add: populate_def Let_def fresh_body_def rows_loop_cleared rows_loop_exhausted
           split: sum.split)

lemma populate_fixed:
  "populate (Some d) False normalise self =
     Some (case d of
             [] \<Rightarrow> Inl (ValueError, clear (fresh_body self))
           | r # _ \<Rightarrow>
               if r = [] then Inl (AttributeError, clear (fresh_body self))
               else Inl (AttributeError, set_body_rows [[]] (fresh_body self)))"
  by (cases d)
     (simp_all add: populate_def Let_def fresh_body_def rows_loop_cleared rows_loop_exhausted_fixed
        clear_def [symmetric])

section \<open>What \<^verbatim>\<open>populate\<close> leaves behind\<close>

text \<open>
  \<^verbatim>\<open>populate\<close> returns on every input (lemma \<open>populate_returns\<close>). With
  \<^verbatim>\<open>resize_x=True\<close> the result is given by lemma \<open>populate_resize\<close>; on data with at
  least one row and at least one column it succeeds, and the body is the data, cell by
  cell (lemma \<open>populate_rectangular\<close>). With \<^verbatim>\<open>resize_x=False\<close> it always ends with an
  exception, and never with \<^verbatim>\<open>WidgetDataError\<close> (lemmas \<open>populate_fixed\<close>,
  \<open>populate_fixed_never_WidgetDataError\<close>).
\<close>

lemma body_rows_fresh_body [simp]:
  "body_rows (set_body_rows rows (fresh_body self)) = rows"
  by (auto simp: fresh_body_def body_rows_def set_body_rows_def add_body_def split: if_splits part.splits)

lemma fresh_body_nonempty: "body_rows self \<noteq> [] \<Longrightarrow> fresh_body self = self"
  by (simp add: fresh_body_def)

lemma fold_max_const: "\<forall>x \<in> set xs. x = c \<Longrightarrow> fold max xs c = (c::nat)"
  by (induction xs) auto

lemma py_max_rectangular:
  "d \<noteq> [] \<Longrightarrow> \<forall>r \<in> set d. length r = C \<Longrightarrow> py_max (map length d) = Inr C"
  by (cases d) (auto simp: fold_max_const)

lemma row_of_full: "length r = C \<Longrightarrow> row_of normalise C r = map cell_of r"
  by (simp add: row_of_def ljust_def)

lemma populate_rectangular:
  assumes "d \<noteq> []" and "0 < C" and "\<forall>r \<in> set d. length r = C"
  shows "\<exists>self'. populate (Some d) True True self = Some (Inr self')
           \<and> body_rows self' = map (map cell_of) d"
proof -
  from assms(2,3) have ne: "[] \<notin> set d" by auto
  from assms(3) have "map (row_of True C) d = map (map cell_of) d"
    by (simp add: row_of_full)
  with ne py_max_rectangular [OF assms(1,3)] show ?thesis
    by (simp add: populate_resize)
qed

lemma populate_returns: "\<exists>r. populate data resize_x normalise self = Some r"
proof (cases data)
  case None
  then show ?thesis by (simp add: populate_def)
next
  case (Some d)
  then show ?thesis
    by (cases resize_x) (simp_all add: populate_resize populate_fixed)
qed

lemma populate_fixed_never_WidgetDataError:
  "populate (Some d) False normalise self \<noteq> Some (Inl (WidgetDataError, self'))"
  by (simp add: populate_fixed split: list.split)

text \<open>
  The tables of the examples are tables the widget builds, and in \<^verbatim>\<open>add_row\<close> the width
  check does raise: there the body still has its rows when the check looks at them.
\<close>

lemma add_row_builds_one_cell:
  "add_row [7::nat] True TempyTable =
     Inr \<lparr>table_childs = [Tbody [[Cell Td [7] []]]], body = 0,
          header = None, footer = None, caption = None\<rparr>"
  by (simp add: add_row_def TempyTable_def body_rows_def set_body_rows_def)

lemma add_row_builds_one_row:
  "add_row [1, 2::nat] True TempyTable =
     Inr \<lparr>table_childs = [Tbody [[Cell Td [1] [], Cell Td [2] []]]], body = 0,
          header = None, footer = None, caption = None\<rparr>"
  by (simp add: add_row_def TempyTable_def body_rows_def set_body_rows_def)

lemma add_row_fixed_width_raises:
  "add_row [1, 2] False
     \<lparr>table_childs = [Tbody [[Cell Td [7::nat] []]]], body = 0,
      header = None, footer = None, caption = None\<rparr>
   = Inl (WidgetDataError,
       \<lparr>table_childs = [Tbody [[Cell Td [7] []]]], body = 0,
        header = None, footer = None, caption = None\<rparr>)"
  by (simp add: add_row_def check_row_size_def body_rows_def)

section \<open>Header, footer and caption: what a call adds\<close>

text \<open>
  Every call of \<^verbatim>\<open>make_header\<close> appends one more \<^verbatim>\<open>Thead\<close> to the table, and every call of
  \<^verbatim>\<open>make_footer\<close> one more \<^verbatim>\<open>Tfoot\<close>; \<^verbatim>\<open>make_caption\<close> fills the one \<^verbatim>\<open>Caption\<close> again.
\<close>

lemma make_header_adds_container:
  "header_containers (make_header head self) =
     header_containers self @ [Thead [map (\<lambda>col. Cell Th [col] []) head]]"
  by (simp add: header_containers_def make_header_def make_table_part_def Let_def)

lemma make_footer_adds_container:
  "footer_containers (make_footer foot self) =
     footer_containers self @ [Tfoot [map (\<lambda>col. Cell Td [col] []) foot]]"
  by (simp add: footer_containers_def make_footer_def make_table_part_def Let_def)

lemma make_caption_replaces:
  "make_caption (2::nat) (make_caption 1 TempyTable) =
     \<lparr>table_childs = [Tbody [], Caption [2]], body = 0,
      header = None, footer = None, caption = Some 1\<rparr>"
  by (simp add: make_caption_def TempyTable_def)

section \<open>Classes on cells\<close>

text \<open>
  \<open>set_body_rows rows self\<close> is the table with the rows of its body replaced. Where
  \<^verbatim>\<open>self.body\<close> names no \<^verbatim>\<open>Tbody\<close> among the children (no table that \<^verbatim>\<open>TempyTable\<close> built is
  such), the body counts as empty, and no operation below gives it rows.
\<close>

lemma body_rows_set_body_rows:
  "body_rows self \<noteq> [] \<or> rows = [] \<Longrightarrow> body_rows (set_body_rows rows self) = rows"
  by (auto simp: body_rows_def set_body_rows_def split: if_splits part.splits)

lemma col_class_rows_in_bounds:
  "\<forall>row \<in> set rows. 0 \<le> i \<and> i < int (length row) \<Longrightarrow>
   col_class_rows css i rows =
     (map (\<lambda>row. if childs (row ! nat i) \<noteq> [] then row[nat i := attr_klass css (row ! nat i)]
                  else row) rows, None)"
  by (induction rows) (simp_all add: is_col_within_bounds_def)

lemma col_class_rows_out_of_bounds:
  "\<exists>row \<in> set rows. \<not> (0 \<le> i \<and> i < int (length row)) \<Longrightarrow>
   \<exists>rows'. col_class_rows css i rows = (rows', Some WidgetDataError)"
proof (induction rows)
  case Nil
  then show ?case by simp
next
  case (Cons row rows)
  show ?case
  proof (cases "0 \<le> i \<and> i < int (length row)")
    case False
    then show ?thesis by (auto simp: is_col_within_bounds_def)
  next
    case True
    with Cons.prems have "\<exists>row \<in> set rows. \<not> (0 \<le> i \<and> i < int (length row))" by auto
    from Cons.IH [OF this] obtain rows' where
      "col_class_rows css i rows = (rows', Some WidgetDataError)" by blast
    with True show ?thesis by (simp add: is_col_within_bounds_def)
  qed
qed

lemma body_rows_grid:
  "body_rows grid = [[Cell Td [1] [], Cell Td [2] []], [Cell Td [3] [], Cell Td [] []]]"
  by (simp add: body_rows_def grid_def)

section \<open>Where a mapping stops\<close>

lemma apply_function_empty: "childs c = [] \<Longrightarrow> apply_function fn c = (c, None)"
  by (cases c) (simp add: apply_function_def)

lemma apply_function_passes: "passes fn c \<Longrightarrow> apply_function fn c = (processed fn c, None)"
  by (simp add: passes_def processed_def prod_eq_iff)

lemma processed_empty: "childs c = [] \<Longrightarrow> processed fn c = c"
  by (simp add: processed_def apply_function_empty)

lemma cells_pass_all:
  "\<forall>x \<in> set row. passes fn x \<Longrightarrow> cells_pass fn row = (map (processed fn) row, None)"
  by (induction row) (simp_all add: apply_function_passes processed_empty)

lemma cells_pass_stops:
  assumes "\<forall>x \<in> set pre. passes fn x" and "childs c \<noteq> []"
    and "apply_function fn c = (c', Some e)"
  shows "cells_pass fn (pre @ c # post) = (map (processed fn) pre @ c' # post, Some e)"
  using assms(1)
  by (induction pre) (simp_all add: assms(2,3) apply_function_passes processed_empty)

lemma map_col_rows_stops:
  assumes "\<forall>rw \<in> set rpre. 0 \<le> i \<and> i < int (length rw) \<and> passes fn (rw ! nat i)"
    and "0 \<le> i" and "i < int (length row)" and "childs (row ! nat i) \<noteq> []"
    and "apply_function fn (row ! nat i) = (c', Some e)"
  shows "map_col_rows fn i (rpre @ row # rpost) =
           (map (\<lambda>rw. rw[nat i := processed fn (rw ! nat i)]) rpre
              @ row[nat i := c'] # rpost, Some e)"
  using assms(1)
proof (induction rpre)
  case Nil
  from assms(2-5) show ?case by (simp add: is_col_within_bounds_def)
next
  case (Cons rw rpre)
  then have rw: "0 \<le> i" "i < int (length rw)" "passes fn (rw ! nat i)"
    and rest: "\<forall>rw \<in> set rpre. 0 \<le> i \<and> i < int (length rw) \<and> passes fn (rw ! nat i)"
    by auto
  have unchanged: "childs (rw ! nat i) = [] \<Longrightarrow> rw[nat i := processed fn (rw ! nat i)] = rw"
    by (simp add: processed_empty)
  from rw Cons.IH [OF rest] unchanged show ?case
    by (simp add: is_col_within_bounds_def apply_function_passes)
qed

lemma map_table_rows_ignore:
  "map_table_rows fn True rows =
     (map (\<lambda>row. fst (apply_function_to_cells row fn True)) rows, None)"
  by (induction rows) (auto simp: apply_function_to_cells_def split: prod.splits option.splits)

lemma apply_function_to_cells_all:
  "\<forall>x \<in> set row. passes fn x \<Longrightarrow>
   apply_function_to_cells row fn ignore_errors = (map (processed fn) row, None)"
  by (simp add: apply_function_to_cells_def cells_pass_all)

lemma apply_function_to_cells_stops:
  assumes "\<forall>x \<in> set pre. passes fn x" and "childs c \<noteq> []"
    and "apply_function fn c = (c', Some e)"
  shows "apply_function_to_cells (pre @ c # post) fn ignore_errors =
           (map (processed fn) pre @ c' # post, if ignore_errors then None else Some e)"
  by (simp add: apply_function_to_cells_def cells_pass_stops [OF assms])

lemma map_table_rows_stops:
  assumes "\<forall>rw \<in> set rpre. \<forall>x \<in> set rw. passes fn x"
    and "\<forall>x \<in> set pre. passes fn x" and "childs c \<noteq> []"
    and "apply_function fn c = (c', Some e)"
  shows "map_table_rows fn False (rpre @ (pre @ c # post) # rpost) =
           (map (map (processed fn)) rpre @ (map (processed fn) pre @ c' # post) # rpost,
            Some e)"
  using assms(1)
  by (induction rpre)
     (simp_all add: apply_function_to_cells_stops [OF assms(2-4)] apply_function_to_cells_all)

lemma body_rows_grid3:
  "body_rows grid3 = [[Cell Td [5] [], Cell Td [6] []],
                      [Cell Td [2] [], Cell Td [1] [], Cell Td [3] []],
                      [Cell Td [4] [], Cell Td [7] []]]"
  by (simp add: body_rows_def grid3_def)

lemma fails_on_one_cells:
  "x \<noteq> 1 \<Longrightarrow> passes fails_on_one (Cell Td [x] [])"
  "x \<noteq> 1 \<Longrightarrow> processed fails_on_one (Cell Td [x] []) = Cell Td [x + 10] []"
  "apply_function fails_on_one (Cell Td [1] []) = (Cell Td [1] [], Some (Raised ''one''))"
  by (simp_all add: passes_def processed_def apply_function_def)

text \<open>
  What the three mappings do when the transform raises. \<open>c\<close> is the first cell the
  transform fails on and \<open>c'\<close> that cell as the failed call left it: the cells before it
  in its row (\<open>pre\<close>) pass, and so do, for \<^verbatim>\<open>map_col\<close>, the cells of the column in the
  rows above (\<open>rpre\<close>) and, for \<^verbatim>\<open>map_table\<close>, all cells of the rows above. The exception
  ends the loop it occurs in, whatever \<^verbatim>\<open>ignore_errors\<close> is: the cells after \<open>c\<close> in the
  row (\<^verbatim>\<open>map_row\<close>, \<^verbatim>\<open>map_table\<close>) or the rows below (\<^verbatim>\<open>map_col\<close>) are not passed to the
  transform. \<^verbatim>\<open>ignore_errors\<close> decides only whether the exception is raised again; with
  \<^verbatim>\<open>ignore_errors=True\<close> \<^verbatim>\<open>map_table\<close> goes on with the next row, \<^verbatim>\<open>map_col\<close> does not.
\<close>

lemma map_pass_ends_at_first_error:
  assumes "\<forall>x \<in> set pre. passes fn x" and "childs c \<noteq> []"
    and "apply_function fn c = (c', Some e)"
  shows
    "(0 \<le> r \<and> r < int (length (body_rows self)) \<and> body_rows self ! nat r = pre @ c # post \<longrightarrow>
        map_row fn (Some r) True self =
          Inr (set_body_rows ((body_rows self)[nat r := map (processed fn) pre @ c' # post]) self)
      \<and> map_row fn (Some r) False self =
          Inl (e, set_body_rows ((body_rows self)[nat r := map (processed fn) pre @ c' # post])
                    self))
   \<and> (body_rows self = rpre @ row # rpost \<and> 0 \<le> i \<and> i < int (length row) \<and> row ! nat i = c
        \<and> (\<forall>rw \<in> set rpre. 0 \<le> i \<and> i < int (length rw) \<and> passes fn (rw ! nat i)) \<longrightarrow>
        map_col fn (Some i) True self =
          Inr (set_body_rows (map (\<lambda>rw. rw[nat i := processed fn (rw ! nat i)]) rpre
                                @ row[nat i := c'] # rpost) self)
      \<and> map_col fn (Some i) False self =
          Inl (e, set_body_rows (map (\<lambda>rw. rw[nat i := processed fn (rw ! nat i)]) rpre
                                   @ row[nat i := c'] # rpost) self))
   \<and> (body_rows self = rpre @ (pre @ c # post) # rpost
        \<and> (\<forall>rw \<in> set rpre. \<forall>x \<in> set rw. passes fn x) \<longrightarrow>
        map_table fn False self =
          Inl (e, set_body_rows (map (map (processed fn)) rpre
                                   @ (map (processed fn) pre @ c' # post) # rpost) self)
      \<and> (\<exists>rpost'. map_table fn True self =
            Inr (set_body_rows (map (map (processed fn)) rpre
                                  @ (map (processed fn) pre @ c' # post) # rpost') self)
          \<and> length rpost' = length rpost
          \<and> (\<forall>k < length rpost. (\<forall>x \<in> set (rpost ! k). passes fn x) \<longrightarrow>
                rpost' ! k = map (processed fn) (rpost ! k))))"
proof (intro conjI impI)
  assume r: "0 \<le> r \<and> r < int (length (body_rows self)) \<and> body_rows self ! nat r = pre @ c # post"
  with apply_function_to_cells_stops [OF assms, of post True]
  show "map_row fn (Some r) True self =
          Inr (set_body_rows ((body_rows self)[nat r := map (processed fn) pre @ c' # post]) self)"
    by (simp add: map_row_def is_row_within_bounds_def)
  from r apply_function_to_cells_stops [OF assms, of post False]
  show "map_row fn (Some r) False self =
          Inl (e, set_body_rows ((body_rows self)[nat r := map (processed fn) pre @ c' # post])
                    self)"
    by (simp add: map_row_def is_row_within_bounds_def)
next
  assume h: "body_rows self = rpre @ row # rpost \<and> 0 \<le> i \<and> i < int (length row) \<and> row ! nat i = c
        \<and> (\<forall>rw \<in> set rpre. 0 \<le> i \<and> i < int (length rw) \<and> passes fn (rw ! nat i))"
  then have "map_col_rows fn i (rpre @ row # rpost) =
           (map (\<lambda>rw. rw[nat i := processed fn (rw ! nat i)]) rpre
              @ row[nat i := c'] # rpost, Some e)"
    using assms(2,3) by (intro map_col_rows_stops) auto
  with h show "map_col fn (Some i) True self =
          Inr (set_body_rows (map (\<lambda>rw. rw[nat i := processed fn (rw ! nat i)]) rpre
                                @ row[nat i := c'] # rpost) self)"
    and "map_col fn (Some i) False self =
          Inl (e, set_body_rows (map (\<lambda>rw. rw[nat i := processed fn (rw ! nat i)]) rpre
                                   @ row[nat i := c'] # rpost) self)"
    by (simp_all add: map_col_def)
next
  assume h: "body_rows self = rpre @ (pre @ c # post) # rpost
        \<and> (\<forall>rw \<in> set rpre. \<forall>x \<in> set rw. passes fn x)"
  with map_table_rows_stops [OF _ assms, of rpre post rpost]
  show "map_table fn False self =
          Inl (e, set_body_rows (map (map (processed fn)) rpre
                                   @ (map (processed fn) pre @ c' # post) # rpost) self)"
    by (simp add: map_table_def)
  let ?rpost' = "map (\<lambda>row. fst (apply_function_to_cells row fn True)) rpost"
  have pre_rows: "map (\<lambda>row. fst (apply_function_to_cells row fn True)) rpre =
      map (map (processed fn)) rpre"
    using h by (simp add: apply_function_to_cells_all)
  have "map_table fn True self =
            Inr (set_body_rows (map (\<lambda>row. fst (apply_function_to_cells row fn True)) rpre
                                  @ (map (processed fn) pre @ c' # post) # ?rpost') self)"
    using h
    by (simp add: map_table_def map_table_rows_ignore apply_function_to_cells_stops [OF assms])
  then have "map_table fn True self =
            Inr (set_body_rows (map (map (processed fn)) rpre
                                  @ (map (processed fn) pre @ c' # post) # ?rpost') self)"
    by (simp only: pre_rows)
  moreover have "length ?rpost' = length rpost" by simp
  moreover have "\<forall>k < length rpost. (\<forall>x \<in> set (rpost ! k). passes fn x) \<longrightarrow>
                ?rpost' ! k = map (processed fn) (rpost ! k)"
    by (simp add: apply_function_to_cells_all)
  ultimately show "\<exists>rpost'. map_table fn True self =
            Inr (set_body_rows (map (map (processed fn)) rpre
                                  @ (map (processed fn) pre @ c' # post) # rpost') self)
          \<and> length rpost' = length rpost
          \<and> (\<forall>k < length rpost. (\<forall>x \<in> set (rpost ! k). passes fn x) \<longrightarrow>
                rpost' ! k = map (processed fn) (rpost ! k))"
    by blast
qed

text \<open>
  The lemma on a body of three rows, where the transform fails on the middle cell of the
  middle row.
\<close>

lemma map_pass_ends_at_first_error_example:
  "map_row fails_on_one (Some 1) True grid3 =
     Inr (set_body_rows [[Cell Td [5] [], Cell Td [6] []],
                         [Cell Td [12] [], Cell Td [1] [], Cell Td [3] []],
                         [Cell Td [4] [], Cell Td [7] []]] grid3)
   \<and> map_row fails_on_one (Some 1) False grid3 =
     Inl (Raised ''one'',
          set_body_rows [[Cell Td [5] [], Cell Td [6] []],
                         [Cell Td [12] [], Cell Td [1] [], Cell Td [3] []],
                         [Cell Td [4] [], Cell Td [7] []]] grid3)
   \<and> map_col fails_on_one (Some 1) True grid3 =
     Inr (set_body_rows [[Cell Td [5] [], Cell Td [16] []],
                         [Cell Td [2] [], Cell Td [1] [], Cell Td [3] []],
                         [Cell Td [4] [], Cell Td [7] []]] grid3)
   \<and> map_col fails_on_one (Some 1) False grid3 =
     Inl (Raised ''one'',
          set_body_rows [[Cell Td [5] [], Cell Td [16] []],
                         [Cell Td [2] [], Cell Td [1] [], Cell Td [3] []],
                         [Cell Td [4] [], Cell Td [7] []]] grid3)
   \<and> map_table fails_on_one False grid3 =
     Inl (Raised ''one'',
          set_body_rows [[Cell Td [15] [], Cell Td [16] []],
                         [Cell Td [12] [], Cell Td [1] [], Cell Td [3] []],
                         [Cell Td [4] [], Cell Td [7] []]] grid3)
   \<and> map_table fails_on_one True grid3 =
     Inr (set_body_rows [[Cell Td [15] [], Cell Td [16] []],
                         [Cell Td [12] [], Cell Td [1] [], Cell Td [3] []],
                         [Cell Td [14] [], Cell Td [17] []]] grid3)"
proof -
  have pre: "\<forall>x \<in> set [Cell Td [2] []]. passes fails_on_one x"
    by (simp add: fails_on_one_cells)
  have c: "childs (Cell Td [1::nat] []) \<noteq> []" by simp
  note fact = map_pass_ends_at_first_error [OF pre c fails_on_one_cells(3),
      where r = 1 and self = grid3 and post = "[Cell Td [3] []]"
        and rpre = "[[Cell Td [5] [], Cell Td [6] []]]"
        and row = "[Cell Td [2] [], Cell Td [1] [], Cell Td [3] []]"
        and rpost = "[[Cell Td [4] [], Cell Td [7] []]]" and i = 1]
  from fact show ?thesis
    by (auto simp: body_rows_grid3 fails_on_one_cells length_Suc_conv)
qed

section \<open>The kind and the items of a list\<close>

lemma dict_pop_no_key: "map_of d k = None \<Longrightarrow> dict_pop k d = None"
  by (simp add: dict_pop_def)

lemma dict_pop_key:
  "map_of d k = Some v \<Longrightarrow> dict_pop k d = Some (v, filter (\<lambda>p. fst p \<noteq> k) d)"
  by (simp add: dict_pop_def)

lemma map_of_filter_key: "map_of (filter (\<lambda>p. fst p \<noteq> k) d) k = None"
  by (induction d) auto

lemma new_typ_key:
  assumes "map_of d (KStr ''_typ'') = Some v"
  shows "new_typ typ (VMap d) = new_typ v (VMap (filter (\<lambda>p. fst p \<noteq> (KStr ''_typ'')) d))"
  by (simp add: new_typ_def dict_pop_key [OF assms] dict_pop_no_key [OF map_of_filter_key])

lemma new_typ_no_key:
  assumes "\<forall>d. struct = VMap d \<longrightarrow> map_of d (KStr ''_typ'') = None"
  shows "new_typ (VTag k) struct = Inr (k, struct)"
    and "new_typ VNone struct = Inr (Ul, struct)"
    and "new_typ (VStr name) struct =
           (case tags_getattr name of Some k \<Rightarrow> Inr (k, struct) | None \<Rightarrow> Inl WidgetError)"
  using assms
  by (cases struct; simp add: new_typ_def dict_pop_no_key split: option.split)+

lemma TempyList_root:
  "TempyList typ struct = Inr t \<Longrightarrow> \<exists>s. new_typ typ struct = Inr (root_kind t, s)"
  by (auto split: sum.splits)

lemma dict_snoc: "dict (ps @ [(k, v)]) = dict_set k v (dict ps)"
  by (simp add: dict_def)

lemma dict_set_keys_only:
  "dict_set x VNone (map (\<lambda>x. (x, VNone)) ks) =
     (if x \<in> set ks then map (\<lambda>x. (x, VNone)) ks else map (\<lambda>x. (x, VNone)) (ks @ [x]))"
  by (induction ks) auto

lemma dict_keys_only:
  "dict (map (\<lambda>x. (x, VNone)) xs) = map (\<lambda>x. (x, VNone)) (rev (remdups (rev xs)))"
proof (induction xs rule: rev_induct)
  case Nil
  show ?case by (simp add: dict_def)
next
  case (snoc x xs)
  have "dict (map (\<lambda>x. (x, VNone)) (xs @ [x])) =
      dict_set x VNone (dict (map (\<lambda>x. (x, VNone)) xs))"
    by (simp add: dict_snoc)
  with snoc.IH show ?case by (simp add: dict_set_keys_only)
qed

lemma dict_zip_longest:
  "xs \<noteq> [] \<Longrightarrow>
   dict (zip_longest_None xs) = map (\<lambda>x. (x, VNone)) (rev (remdups (rev xs)))"
  by (simp add: zip_longest_None_def dict_keys_only)

lemma process_li_struct_keys_only:
  "process_li_struct sublist (map (\<lambda>x. (x, VNone)) ks) = Inr (map (\<lambda>x. Li x None) ks)"
  by (induction ks) simp_all

section \<open>Properties\<close>

text \<open>
  C1: \<^verbatim>\<open>populate(data, resize_x=False)\<close> is to raise \<^verbatim>\<open>WidgetDataError\<close> whenever the longest
  row of \<^verbatim>\<open>data\<close> is longer than the table's column count. The code does not: on a table
  of one column and data of two columns it empties the body, the width check then sees
  an empty body and passes, and the call ends in an \<^verbatim>\<open>AttributeError\<close>, leaving one
  row without cells.
\<close>

theorem populate_fixed_width_AttributeError:
  "populate (Some [[Some (1::nat), Some 2]]) False True
     \<lparr>table_childs = [Tbody [[Cell Td [7] []]]], body = 0,
      header = None, footer = None, caption = None\<rparr>
   = Some (Inl (AttributeError,
        \<lparr>table_childs = [Tbody [[]]], body = 0,
         header = None, footer = None, caption = None\<rparr>))"
  by (simp add: populate_fixed fresh_body_def body_rows_def set_body_rows_def)

text \<open>
  C2: with \<^verbatim>\<open>ignore_errors=True\<close> a cell the transform raises on is to be skipped and every
  remaining cell with content still processed; with \<^verbatim>\<open>ignore_errors=False\<close> the first
  exception is to leave the call. The code does neither in full. On a body of the one row
  \<open>1, 2\<close> and a transform that raises on \<open>1\<close> and turns \<open>2\<close> into \<open>12\<close>,
  \<^verbatim>\<open>map_row(fn, 0, ignore_errors=True)\<close> and \<^verbatim>\<open>map_table(fn, ignore_errors=True)\<close> leave the
  row as it is: the \<^verbatim>\<open>try\<close> encloses the whole loop, so the cell \<open>2\<close> is never passed to
  the transform. And \<^verbatim>\<open>map_col(fn, None, ignore_errors=False)\<close> raises nothing, because it
  calls \<^verbatim>\<open>map_table\<close> without the flag, while \<^verbatim>\<open>map_table(fn, ignore_errors=False)\<close> does
  raise.
\<close>

theorem map_ignore_errors_leaves_later_cells:
  "map_row fails_on_one (Some 0) True
     \<lparr>table_childs = [Tbody [[Cell Td [1] [], Cell Td [2] []]]], body = 0,
      header = None, footer = None, caption = None\<rparr>
   = Inr \<lparr>table_childs = [Tbody [[Cell Td [1] [], Cell Td [2] []]]], body = 0,
          header = None, footer = None, caption = None\<rparr>
   \<and> map_table fails_on_one True
     \<lparr>table_childs = [Tbody [[Cell Td [1] [], Cell Td [2] []]]], body = 0,
      header = None, footer = None, caption = None\<rparr>
   = Inr \<lparr>table_childs = [Tbody [[Cell Td [1] [], Cell Td [2] []]]], body = 0,
          header = None, footer = None, caption = None\<rparr>
   \<and> apply_function fails_on_one (Cell Td [2] []) = (Cell Td [12] [], None)
   \<and> map_col fails_on_one None False
     \<lparr>table_childs = [Tbody [[Cell Td [1] [], Cell Td [2] []]]], body = 0,
      header = None, footer = None, caption = None\<rparr>
   = Inr \<lparr>table_childs = [Tbody [[Cell Td [1] [], Cell Td [2] []]]], body = 0,
          header = None, footer = None, caption = None\<rparr>
   \<and> map_table fails_on_one False
     \<lparr>table_childs = [Tbody [[Cell Td [1] [], Cell Td [2] []]]], body = 0,
      header = None, footer = None, caption = None\<rparr>
   = Inl (Raised ''one'',
       \<lparr>table_childs = [Tbody [[Cell Td [1] [], Cell Td [2] []]]], body = 0,
        header = None, footer = None, caption = None\<rparr>)"
  by (simp add: map_row_def map_col_def map_table_def is_row_within_bounds_def body_rows_def
        set_body_rows_def apply_function_to_cells_def apply_function_def)

text \<open>
  C3: a second call of \<^verbatim>\<open>make_header\<close> is to replace the header row. The code appends a
  second \<^verbatim>\<open>Thead\<close>: after \<^verbatim>\<open>make_header([1, 2])\<close> and \<^verbatim>\<open>make_header([3, 4])\<close> the table
  has two header containers, the first still holding \<open>1, 2\<close>, and \<^verbatim>\<open>self.header\<close> still
  names the first. \<^verbatim>\<open>make_footer\<close> does the same with \<^verbatim>\<open>Tfoot\<close>.
\<close>

theorem make_header_twice_two_containers:
  "make_header [3, 4] (make_header [1, 2::nat] TempyTable) =
     \<lparr>table_childs = [Tbody [],
                      Thead [[Cell Th [1] [], Cell Th [2] []]],
                      Thead [[Cell Th [3] [], Cell Th [4] []]]],
      body = 0, header = Some 1, footer = None, caption = None\<rparr>
   \<and> make_footer [3, 4] (make_footer [1, 2::nat] TempyTable) =
     \<lparr>table_childs = [Tbody [],
                      Tfoot [[Cell Td [1] [], Cell Td [2] []]],
                      Tfoot [[Cell Td [3] [], Cell Td [4] []]]],
      body = 0, header = None, footer = Some 1, caption = None\<rparr>"
  by (simp add: make_header_def make_footer_def make_table_part_def TempyTable_def)

text \<open>
  C4, as amended: the kind of a list is taken first from the key \<^verbatim>\<open>'_typ'\<close> when the
  structure is a \<^verbatim>\<open>dict\<close> that has it: the value of the key takes the place of the
  \<^verbatim>\<open>typ\<close> argument, whatever that argument is, and the key is removed. Only for a
  structure without the key is the argument used: a class as it is, a string through the
  tags module, and \<^verbatim>\<open>None\<close> gives the default \<^verbatim>\<open>Ul\<close>. The root of the list built is of
  the kind so found.
\<close>

theorem typ_key_before_argument:
  "(map_of d (KStr ''_typ'') = Some v \<longrightarrow>
      new_typ typ (VMap d) = new_typ v (VMap (filter (\<lambda>p. fst p \<noteq> (KStr ''_typ'')) d))
    \<and> TempyList typ (VMap d) = TempyList v (VMap (filter (\<lambda>p. fst p \<noteq> (KStr ''_typ'')) d)))
   \<and> ((\<forall>d. struct = VMap d \<longrightarrow> map_of d (KStr ''_typ'') = None) \<longrightarrow>
        new_typ (VTag k) struct = Inr (k, struct)
      \<and> new_typ (VStr name) struct =
          (case tags_getattr name of Some k \<Rightarrow> Inr (k, struct) | None \<Rightarrow> Inl WidgetError)
      \<and> new_typ VNone struct = Inr (Ul, struct))
   \<and> (TempyList typ struct = Inr t \<longrightarrow> (\<exists>s. new_typ typ struct = Inr (root_kind t, s)))"
proof (intro conjI impI)
  assume key: "map_of d (KStr ''_typ'') = Some v"
  then show "new_typ typ (VMap d) = new_typ v (VMap (filter (\<lambda>p. fst p \<noteq> (KStr ''_typ'')) d))"
    by (rule new_typ_key)
  then show "TempyList typ (VMap d) = TempyList v (VMap (filter (\<lambda>p. fst p \<noteq> (KStr ''_typ'')) d))"
    by simp
next
  assume "\<forall>d. struct = VMap d \<longrightarrow> map_of d (KStr ''_typ'') = None"
  then show "new_typ (VTag k) struct = Inr (k, struct)"
    and "new_typ (VStr name) struct =
          (case tags_getattr name of Some k \<Rightarrow> Inr (k, struct) | None \<Rightarrow> Inl WidgetError)"
    and "new_typ VNone struct = Inr (Ul, struct)"
    by (rule new_typ_no_key)+
next
  assume "TempyList typ struct = Inr t"
  then show "\<exists>s. new_typ typ struct = Inr (root_kind t, s)" by (rule TempyList_root)
qed

text \<open>The theorem on a \<^verbatim>\<open>dict\<close> with the key, and on structures without it.\<close>

theorem typ_key_before_argument_witness:
  "TempyList (VTag Ol) (VMap [(KStr ''_typ'', VStr ''Dl''), (KStr ''a'', VStr ''b'')]) =
     TempyList (VStr ''Dl'') (VMap [(KStr ''a'', VStr ''b'')])
   \<and> new_typ (VTag Ol) (VMap [(KStr ''a'', VStr ''b'')]) = Inr (Ol, VMap [(KStr ''a'', VStr ''b'')])
   \<and> new_typ (VStr ''Dl'') (VMap [(KStr ''a'', VStr ''b'')]) = Inr (Dl, VMap [(KStr ''a'', VStr ''b'')])
   \<and> new_typ VNone (VSeq [KStr ''x'']) = Inr (Ul, VSeq [KStr ''x''])
   \<and> TempyList (VStr ''Dl'') (VMap [(KStr ''a'', VStr ''b'')]) = Inr (ListTree Dl [Dt (KStr ''a''), Dd (VStr ''b'')])
   \<and> (\<exists>s. new_typ (VStr ''Dl'') (VMap [(KStr ''a'', VStr ''b'')]) = Inr (Dl, s))"
proof -
  have built: "TempyList (VStr ''Dl'') (VMap [(KStr ''a'', VStr ''b'')]) =
      Inr (ListTree Dl [Dt (KStr ''a''), Dd (VStr ''b'')])"
    by (simp add: new_typ_def dict_pop_def TempyListMeta_populate_def tags_getattr_def)
  from typ_key_before_argument
      [of "[(KStr ''_typ'', VStr ''Dl''), (KStr ''a'', VStr ''b'')]" "VStr ''Dl''" "VTag Ol"
          "VMap [(KStr ''a'', VStr ''b'')]" Ol "''Dl''" "ListTree Dl [Dt (KStr ''a''), Dd (VStr ''b'')]"]
    typ_key_before_argument
      [of "[]" VNone "VStr ''Dl''" "VSeq [KStr ''x'']" Ul "''Ul''"
          "ListTree Dl [Dt (KStr ''a''), Dd (VStr ''b'')]"]
    typ_key_before_argument
      [of "[]" VNone "VStr ''Dl''" "VMap [(KStr ''a'', VStr ''b'')]" Ul "''Ul''"
          "ListTree Dl [Dt (KStr ''a''), Dd (VStr ''b'')]"]
    built
  show ?thesis by (simp add: tags_getattr_def)
qed

text \<open>
  C4 as it was stated fails: with the argument \<^verbatim>\<open>Ol\<close> and the key \<^verbatim>\<open>'_typ'\<close> set to \<^verbatim>\<open>Ul\<close>
  the list is a \<^verbatim>\<open>Ul\<close>.
\<close>

theorem typ_key_before_argument_counterexample:
  "TempyList (VTag Ol) (VMap [(KStr ''_typ'', VTag Ul), (KStr ''a'', VNone)]) =
     Inr (ListTree Ul [Li (KStr ''a'') None])"
  by (simp add: new_typ_def dict_pop_def TempyListMeta_populate_def)

text \<open>
  C5: \<^verbatim>\<open>populate(data, resize_x=True, normalize=True)\<close> is to succeed on every rectangular
  \<^verbatim>\<open>data\<close>. The code fails on the rectangles without rows or without columns: on the
  empty list \<^verbatim>\<open>max\<close> raises \<^verbatim>\<open>ValueError\<close>, on a list of empty rows the call ends in an
  \<^verbatim>\<open>AttributeError\<close>; either way the body has been emptied.
\<close>

theorem populate_empty_list_ValueError:
  "populate (Some []) True True
     \<lparr>table_childs = [Tbody [[Cell Td [7::nat] []]]], body = 0,
      header = None, footer = None, caption = None\<rparr>
   = Some (Inl (ValueError,
        \<lparr>table_childs = [Tbody []], body = 0,
         header = None, footer = None, caption = None\<rparr>))
   \<and> populate (Some [[]]) True True
     \<lparr>table_childs = [Tbody [[Cell Td [7::nat] []]]], body = 0,
      header = None, footer = None, caption = None\<rparr>
   = Some (Inl (AttributeError,
        \<lparr>table_childs = [Tbody []], body = 0,
         header = None, footer = None, caption = None\<rparr>))"
  by (simp add: populate_resize fresh_body_def body_rows_def set_body_rows_def clear_def)

text \<open>
  C6, as amended: \<^verbatim>\<open>col_class(css_class)\<close> without an index sets the class on every cell
  of the body, with or without content; \<^verbatim>\<open>col_class(css_class, col_index)\<close> with an index
  within the bounds of every row of the body sets it on the cells with content at that
  index, one per row at most, and changes no other cell; with an index out of the bounds
  of some row of the body it raises \<^verbatim>\<open>WidgetDataError\<close>.
\<close>

theorem col_class_cells:
  "(\<exists>self'. col_class css None self = Inr self'
      \<and> body_rows self' = map (map (attr_klass css)) (body_rows self))
   \<and> ((\<forall>row \<in> set (body_rows self). 0 \<le> i \<and> i < int (length row)) \<longrightarrow>
        (\<exists>self'. col_class css (Some i) self = Inr self'
           \<and> body_rows self' =
               map (\<lambda>row. if childs (row ! nat i) \<noteq> []
                           then row[nat i := attr_klass css (row ! nat i)] else row)
                 (body_rows self)))
   \<and> ((\<exists>row \<in> set (body_rows self). \<not> (0 \<le> i \<and> i < int (length row))) \<longrightarrow>
        (\<exists>self'. col_class css (Some i) self = Inl (WidgetDataError, self')))"
proof (intro conjI impI)
  show "\<exists>self'. col_class css None self = Inr self'
      \<and> body_rows self' = map (map (attr_klass css)) (body_rows self)"
    by (simp add: col_class_def body_rows_set_body_rows)
next
  assume "\<forall>row \<in> set (body_rows self). 0 \<le> i \<and> i < int (length row)"
  from col_class_rows_in_bounds [OF this]
  show "\<exists>self'. col_class css (Some i) self = Inr self'
      \<and> body_rows self' =
          map (\<lambda>row. if childs (row ! nat i) \<noteq> []
                      then row[nat i := attr_klass css (row ! nat i)] else row)
            (body_rows self)"
    by (simp add: col_class_def body_rows_set_body_rows)
next
  assume "\<exists>row \<in> set (body_rows self). \<not> (0 \<le> i \<and> i < int (length row))"
  from col_class_rows_out_of_bounds [OF this] obtain rows' where
    "col_class_rows css i (body_rows self) = (rows', Some WidgetDataError)" by blast
  then show "\<exists>self'. col_class css (Some i) self = Inl (WidgetDataError, self')"
    by (simp add: col_class_def)
qed

text \<open>The theorem on the body of two rows, with the indices \<open>1\<close> (in bounds) and \<open>5\<close>.\<close>

theorem col_class_cells_witness:
  "(\<exists>self'. col_class ''x'' None grid = Inr self'
      \<and> body_rows self' = [[Cell Td [1] [(''klass'', ''x'')], Cell Td [2] [(''klass'', ''x'')]],
                            [Cell Td [3] [(''klass'', ''x'')], Cell Td [] [(''klass'', ''x'')]]])
   \<and> (\<exists>self'. col_class ''x'' (Some 1) grid = Inr self'
         \<and> body_rows self' = [[Cell Td [1] [], Cell Td [2] [(''klass'', ''x'')]],
                               [Cell Td [3] [], Cell Td [] []]])
   \<and> (\<exists>self'. col_class ''x'' (Some 5) grid = Inl (WidgetDataError, self'))"
  using col_class_cells [of "''x''" grid 1] col_class_cells [of "''x''" grid 5]
  by (simp add: body_rows_grid attr_klass_def)

text \<open>
  C6 as it was stated fails: without an index a cell without content gets the class too,
  and on a body without rows no index is out of bounds.
\<close>

theorem col_class_counterexample:
  "col_class ''x'' None
     \<lparr>table_childs = [Tbody [[Cell Td [] []]]], body = 0,
      header = None, footer = None, caption = None\<rparr>
   = Inr \<lparr>table_childs = [Tbody [[Cell Td ([]::nat list) [(''klass'', ''x'')]]]], body = 0,
          header = None, footer = None, caption = None\<rparr>
   \<and> col_class ''x'' (Some 5) (TempyTable :: nat table) = Inr TempyTable"
  by (simp add: col_class_def body_rows_def set_body_rows_def attr_klass_def TempyTable_def)

text \<open>
  C7, as amended: for a list of kind \<^verbatim>\<open>Ul\<close> or \<^verbatim>\<open>Ol\<close> and a flat sequence that is not
  empty, the items of the root are the elements of the sequence in the order of their
  first occurrence, each once, and no item has a sublist; so for a sequence of pairwise
  distinct elements each element becomes exactly one item, in the order of the sequence.
\<close>

theorem flat_sequence_items:
  assumes "k \<noteq> Dl" and "xs \<noteq> []"
  shows "TempyList (VTag k) (VSeq xs) =
           Inr (ListTree k (map (\<lambda>x. Li x None) (rev (remdups (rev xs)))))
       \<and> (distinct xs \<longrightarrow>
            TempyList (VTag k) (VSeq xs) = Inr (ListTree k (map (\<lambda>x. Li x None) xs)))"
proof -
  have "new_typ (VTag k) (VSeq xs) = Inr (k, VSeq xs)"
    by (rule new_typ_no_key) simp
  with assms have first: "TempyList (VTag k) (VSeq xs) =
      Inr (ListTree k (map (\<lambda>x. Li x None) (rev (remdups (rev xs)))))"
    by (simp add: TempyListMeta_populate_def dict_zip_longest process_li_struct_keys_only)
  have "distinct xs \<Longrightarrow> rev (remdups (rev xs)) = xs"
    by (simp add: distinct_remdups_id)
  with first show ?thesis by simp
qed

text \<open>The theorem on \<^verbatim>\<open>['x', 'y']\<close> and on \<^verbatim>\<open>['x', 'y', 'x']\<close>.\<close>

theorem flat_sequence_items_witness:
  "Ul \<noteq> Dl \<and> [KStr ''x'', KStr ''y''] \<noteq> [] \<and> distinct [KStr ''x'', KStr ''y'']
   \<and> TempyList (VTag Ul) (VSeq [KStr ''x'', KStr ''y'']) = Inr (ListTree Ul [Li (KStr ''x'') None, Li (KStr ''y'') None])
   \<and> TempyList (VTag Ul) (VSeq [KStr ''x'', KStr ''y'', KStr ''x'']) =
       Inr (ListTree Ul [Li (KStr ''x'') None, Li (KStr ''y'') None])"
proof -
  have k: "Ul \<noteq> Dl" by simp
  from flat_sequence_items [OF k, of "[KStr ''x'', KStr ''y'']"]
    flat_sequence_items [OF k, of "[KStr ''x'', KStr ''y'', KStr ''x'']"]
  show ?thesis by simp
qed

text \<open>
  C7 as it was stated fails: an element that occurs twice gives one item, and the empty
  sequence gives one item (of key \<^verbatim>\<open>None\<close>) instead of none.
\<close>

theorem flat_sequence_items_counterexample:
  "TempyList (VTag Ul) (VSeq [KStr ''x'', KStr ''x'']) = Inr (ListTree Ul [Li (KStr ''x'') None])
   \<and> TempyList (VTag Ul) (VSeq []) = Inr (ListTree Ul [Li KNone None])"
  by (simp add: new_typ_def TempyListMeta_populate_def dict_def zip_longest_None_def)

text \<open>
  C8: \<^verbatim>\<open>populate(None)\<close> raises \<^verbatim>\<open>WidgetDataError\<close> for every table and every value of
  \<^verbatim>\<open>resize_x\<close> and \<^verbatim>\<open>normalize\<close>, and the table left behind is the table it was called on:
  children (body rows, header, footer, caption) and named attributes are unchanged.
\<close>

theorem populate_None_raises:
  "populate None resize_x normalise self = Some (Inl (WidgetDataError, self))"
  by (simp add: populate_def)

text \<open>
  C9: \<^verbatim>\<open>populate\<close> is idempotent: when \<^verbatim>\<open>populate(data, resize_x=True, normalize=True)\<close>
  succeeds on a table, the same call on the table it left behind succeeds and leaves
  that table as it is (the same rows, the same cells, the same content, and the same
  children and attributes besides).
\<close>

theorem populate_idempotent:
  assumes "populate (Some d) True True self = Some (Inr self1)"
  shows "populate (Some d) True True self1 = Some (Inr self1)"
proof -
  from assms obtain mx where mx: "py_max (map length d) = Inr mx"
    and ne: "[] \<notin> set d"
    and self1: "self1 = set_body_rows (map (row_of True mx) d) (fresh_body self)"
    by (auto simp: populate_resize split: sum.splits if_splits)
  from mx have "d \<noteq> []" by auto
  with self1 have "body_rows self1 \<noteq> []" by simp
  then have "fresh_body self1 = self1" by (rule fresh_body_nonempty)
  with mx ne self1 show ?thesis by (simp add: populate_resize)
qed

text \<open>
  The theorem on the body of two rows and ragged data: the first call pads the second
  row, the second call leaves the table as the first one left it.
\<close>

theorem populate_idempotent_witness:
  "populate (Some [[Some 8, None], [Some 9]]) True True grid =
     Some (Inr (set_body_rows [[Cell Td [8] [], Cell Td [] []],
                               [Cell Td [9] [], Cell Td [] []]] grid))
   \<and> populate (Some [[Some 8, None], [Some 9]]) True True
       (set_body_rows [[Cell Td [8] [], Cell Td [] []],
                       [Cell Td [9] [], Cell Td [] []]] grid) =
     Some (Inr (set_body_rows [[Cell Td [8] [], Cell Td [] []],
                               [Cell Td [9] [], Cell Td [] []]] grid))"
proof -
  have h: "populate (Some [[Some 8, None], [Some 9]]) True True grid =
     Some (Inr (set_body_rows [[Cell Td [8] [], Cell Td [] []],
                               [Cell Td [9] [], Cell Td [] []]] grid))"
    by (simp add: populate_resize fresh_body_def body_rows_grid row_of_def ljust_def
          cell_of_def)
  from populate_idempotent [OF h] h show ?thesis by simp
qed

text \<open>
  C10: \<^verbatim>\<open>populate(data, resize_x=True, normalize=True)\<close> rebuilds the body from the data
  alone: on any two tables the call returns, with the same exception or with none on
  both, and leaves the same body rows on both. One of the two may be a table with an
  empty body.
\<close>

theorem populate_body_from_data_only:
  "\<exists>r r'. populate (Some d) True True self = Some r
        \<and> populate (Some d) True True self' = Some r'
        \<and> raised r = raised r'
        \<and> body_rows (table_after r) = body_rows (table_after r')"
proof (cases "py_max (map length d)")
  case (Inl e)
  then have "populate (Some d) True True self = Some (Inl (e, clear (fresh_body self)))"
    and "populate (Some d) True True self' = Some (Inl (e, clear (fresh_body self')))"
    by (simp_all add: populate_resize)
  then show ?thesis by (simp add: raised_def table_after_def)
next
  case (Inr mx)
  show ?thesis
  proof (cases "[] \<in> set d")
    case False
    with Inr have
      "populate (Some d) True True self =
         Some (Inr (set_body_rows (map (row_of True mx) d) (fresh_body self)))"
      and "populate (Some d) True True self' =
         Some (Inr (set_body_rows (map (row_of True mx) d) (fresh_body self')))"
      by (simp_all add: populate_resize)
    then show ?thesis by (simp add: raised_def table_after_def)
  next
    case True
    with Inr have
      "populate (Some d) True True self =
         Some (Inl (AttributeError,
           set_body_rows (map (row_of True mx) (takeWhile (\<lambda>r. r \<noteq> []) d))
             (fresh_body self)))"
      and "populate (Some d) True True self' =
         Some (Inl (AttributeError,
           set_body_rows (map (row_of True mx) (takeWhile (\<lambda>r. r \<noteq> []) d))
             (fresh_body self')))"
      by (simp_all add: populate_resize)
    then show ?thesis by (simp add: raised_def table_after_def)
  qed
qed

end
